theory Spec2Isabelle
  imports Complex_Main
begin

section \<open>Activity tracker: the data module \<open>handle_db.py\<close>\<close>

text \<open>
  The module talks to a remote Postgres table \<open>atividades\<close> through the Supabase
  client. The table is modelled as the list of its rows, in insertion order. Every
  call of the client can answer with data, answer with its \<open>error\<close> attribute set, or
  raise; which of the three happens is decided by the environment and is passed to
  the model as a \<open>response\<close>. The wall clock (\<open>datetime.now(TIMEZONE)\<close>) is passed in
  the same way.

  An instant is an \<open>int\<close>: microseconds on the absolute time line, the resolution of
  Python's \<open>datetime\<close>. Subtracting two aware datetimes compares instants, so the
  time zone plays no part in a difference.
\<close>

datatype py_exception =
    Supabase_env_missing
  | Supabase_insert_error
  | Supabase_select_error
  | Supabase_update_error
  | Atividade_nao_encontrada
  | Client_exception
  | KeyError string
  | Library_exception

datatype client = Client

datatype response = Responds | Resp_error | Raises

datatype insert_response =
    Insert_returns_row
  | Insert_returns_nothing
  | Insert_resp_error
  | Insert_raises

record py_datetime =
  dt_year :: int
  dt_month :: int
  dt_day :: int
  dt_hour :: int
  dt_minute :: int
  dt_instant :: int

text \<open>
  One row of the table, with the columns of \<open>CREATE_TABLE_SQL\<close>. The column \<open>id\<close> is
  called \<open>ativ_id\<close> here (\<open>id\<close> is the identity function of HOL). \<open>fim\<close> and
  \<open>horas_trabalhadas\<close> are nullable.
\<close>

record atividade =
  ativ_id :: int
  tipo_atividade :: string
  descricao :: string
  inicio :: int
  fim :: "int option"
  user_id :: string
  ano :: int
  mes :: int
  dia :: int
  horas_trabalhadas :: "rat option"

text \<open>
  \<open>get_supabase_client\<close> raises \<open>RuntimeError\<close> when \<open>SUPABASE_URL\<close> or
  \<open>SUPABASE_KEY\<close> is not set. The functions of the module take an optional client and
  build one only when none is given (\<open>if not supabase_client: ...\<close>).
\<close>

definition get_supabase_client :: "bool \<Rightarrow> py_exception + client" where
  "get_supabase_client configured =
     (if configured then Inr Client else Inl Supabase_env_missing)"

definition client_or_new :: "client option \<Rightarrow> bool \<Rightarrow> py_exception + client" where
  "client_or_new supabase_client configured =
     (case supabase_client of
        Some c \<Rightarrow> Inr c
      | None \<Rightarrow> get_supabase_client configured)"

subsection \<open>Hours worked\<close>

text \<open>
  \<open>round(x, ndigits)\<close> of Python rounds to the nearest multiple of \<open>10 ^ - ndigits\<close>,
  a tie going to the even one. Hours are exact rationals here: the binary floating
  point of \<open>total_seconds() / 3600\<close> is idealised, so the model gives the decimal that
  the float of the program approximates.
\<close>

definition round_half_even :: "rat \<Rightarrow> int" where
  "round_half_even y =
     (let lo = \<lfloor>y\<rfloor>;
          frac = y - of_int lo
      in if frac < 1 / 2 then lo
         else if 1 / 2 < frac then lo + 1
         else if even lo then lo else lo + 1)"

definition py_round :: "rat \<Rightarrow> nat \<Rightarrow> rat" where
  "py_round x ndigits = of_int (round_half_even (x * 10 ^ ndigits)) / 10 ^ ndigits"

definition total_seconds :: "int \<Rightarrow> rat" where
  "total_seconds diferenca = of_int diferenca / 1000000"

text \<open>
  \<open>if not fim: return None\<close>: a \<open>datetime\<close> is always truthy, so the test is
  \<open>fim is None\<close>.
\<close>

definition calcular_horas_trabalhadas :: "int \<Rightarrow> int option \<Rightarrow> rat option" where
  "calcular_horas_trabalhadas inicio_dt fim_dt =
     (case fim_dt of
        None \<Rightarrow> None
      | Some f \<Rightarrow>
          (let diferenca = f - inicio_dt;
               horas = total_seconds diferenca / 3600
           in Some (py_round horas 10)))"

subsection \<open>Queries\<close>

text \<open>
  A select request collects filters, an order and a limit; the builder methods only
  add to the request, and \<open>execute\<close> sends it. The server answers with the rows that
  pass every filter, ordered, cut at the limit, whatever the order in which the
  builder methods were called.
\<close>

record query =
  q_fim_is_null :: bool
  q_user_id_eq :: "string option"
  q_id_eq :: "int option"
  q_order_id_desc :: bool
  q_limit :: "nat option"

definition select_rows :: query where
  "select_rows =
     \<lparr>q_fim_is_null = False, q_user_id_eq = None, q_id_eq = None,
      q_order_id_desc = False, q_limit = None\<rparr>"

definition is_fim_null :: "query \<Rightarrow> query" where
  "is_fim_null q = q\<lparr>q_fim_is_null := True\<rparr>"

definition eq_user_id :: "string \<Rightarrow> query \<Rightarrow> query" where
  "eq_user_id u q = q\<lparr>q_user_id_eq := Some u\<rparr>"

definition eq_id :: "int \<Rightarrow> query \<Rightarrow> query" where
  "eq_id i q = q\<lparr>q_id_eq := Some i\<rparr>"

definition order_id_desc :: "query \<Rightarrow> query" where
  "order_id_desc q = q\<lparr>q_order_id_desc := True\<rparr>"

definition limit_rows :: "nat \<Rightarrow> query \<Rightarrow> query" where
  "limit_rows n q = q\<lparr>q_limit := Some n\<rparr>"

definition matches :: "query \<Rightarrow> atividade \<Rightarrow> bool" where
  "matches q r =
     ((if q_fim_is_null q then fim r = None else True) \<and>
      (case q_user_id_eq q of None \<Rightarrow> True | Some u \<Rightarrow> user_id r = u) \<and>
      (case q_id_eq q of None \<Rightarrow> True | Some i \<Rightarrow> ativ_id r = i))"

definition execute :: "query \<Rightarrow> atividade list \<Rightarrow> atividade list" where
  "execute q rows =
     (let found = filter (matches q) rows;
          ordered = (if q_order_id_desc q
                     then sort_key (\<lambda>r. - ativ_id r) found else found)
      in case q_limit q of None \<Rightarrow> ordered | Some n \<Rightarrow> take n ordered)"

text \<open>
  The column \<open>id bigserial PRIMARY KEY\<close>: the table gives a new row an id above every
  id in use, and at least 1.
\<close>

definition next_id :: "atividade list \<Rightarrow> int" where
  "next_id rows = foldr max (map ativ_id rows) 0 + 1"

subsection \<open>Starting and closing an activity\<close>

record start_env =
  se_configured :: bool
  se_now :: py_datetime
  se_insert :: insert_response

text \<open>
  \<open>iniciar_nova_atividade\<close> returns the id of the inserted row, or \<open>None\<close> when the
  answer carries no row (\<open>Insert_returns_nothing\<close>: the row is stored, the answer is
  empty). It raises when the answer has its \<open>error\<close> set or the client raises.
\<close>

definition iniciar_nova_atividade ::
  "string \<Rightarrow> string \<Rightarrow> string \<Rightarrow> client option \<Rightarrow> start_env \<Rightarrow> atividade list
     \<Rightarrow> py_exception + (int option \<times> atividade list)" where
  "iniciar_nova_atividade tipo descr uid supabase_client env rows =
     (case client_or_new supabase_client (se_configured env) of
        Inl e \<Rightarrow> Inl e
      | Inr c \<Rightarrow>
          (let hora_inicio = se_now env;
               payload = \<lparr>ativ_id = next_id rows, tipo_atividade = tipo,
                          descricao = descr, inicio = dt_instant hora_inicio,
                          fim = None, user_id = uid, ano = dt_year hora_inicio,
                          mes = dt_month hora_inicio, dia = dt_day hora_inicio,
                          horas_trabalhadas = None\<rparr>
           in case se_insert env of
                Insert_raises \<Rightarrow> Inl Client_exception
              | Insert_resp_error \<Rightarrow> Inl Supabase_insert_error
              | Insert_returns_nothing \<Rightarrow> Inr (None, rows @ [payload])
              | Insert_returns_row \<Rightarrow> Inr (Some (ativ_id payload), rows @ [payload])))"

record close_env =
  ce_configured :: bool
  ce_select :: response
  ce_now :: int
  ce_update :: response

definition close_row :: "int \<Rightarrow> int \<Rightarrow> rat option \<Rightarrow> atividade \<Rightarrow> atividade" where
  "close_row activity_id hora_fim horas r =
     (if ativ_id r = activity_id
      then r\<lparr>fim := Some hora_fim, horas_trabalhadas := horas\<rparr> else r)"

text \<open>
  \<open>finalizar_atividade\<close> reads \<open>inicio\<close> of the row with the given id, takes the
  clock, and updates \<open>fim\<close> and \<open>horas_trabalhadas\<close> of the rows with that id. The
  select asks for \<open>inicio\<close> only and the update is filtered by the id only.
\<close>

definition finalizar_atividade ::
  "int \<Rightarrow> client option \<Rightarrow> close_env \<Rightarrow> atividade list
     \<Rightarrow> py_exception + (bool \<times> atividade list)" where
  "finalizar_atividade activity_id supabase_client env rows =
     (case client_or_new supabase_client (ce_configured env) of
        Inl e \<Rightarrow> Inl e
      | Inr c \<Rightarrow>
          (case ce_select env of
             Raises \<Rightarrow> Inl Client_exception
           | Resp_error \<Rightarrow> Inl Supabase_select_error
           | Responds \<Rightarrow>
               (case execute (eq_id activity_id select_rows) rows of
                  [] \<Rightarrow> Inl Atividade_nao_encontrada
                | a # _ \<Rightarrow>
                    (let hora_fim = ce_now env;
                         horas = calcular_horas_trabalhadas (inicio a) (Some hora_fim)
                     in case ce_update env of
                          Raises \<Rightarrow> Inl Client_exception
                        | Resp_error \<Rightarrow> Inl Supabase_update_error
                        | Responds \<Rightarrow>
                            Inr (True, map (close_row activity_id hora_fim horas) rows)))))"

subsection \<open>Looking up and sweeping open activities\<close>

record query_env =
  qe_configured :: bool
  qe_resp :: response

definition buscar_atividade_em_andamento ::
  "string option \<Rightarrow> client option \<Rightarrow> query_env \<Rightarrow> atividade list
     \<Rightarrow> py_exception + atividade option" where
  "buscar_atividade_em_andamento uid supabase_client env rows =
     (case client_or_new supabase_client (qe_configured env) of
        Inl e \<Rightarrow> Inl e
      | Inr c \<Rightarrow>
          (let q0 = limit_rows 1 (order_id_desc (is_fim_null select_rows));
               q = (case uid of None \<Rightarrow> q0 | Some u \<Rightarrow> eq_user_id u q0)
           in case qe_resp env of
                Raises \<Rightarrow> Inl Client_exception
              | Resp_error \<Rightarrow> Inl Supabase_select_error
              | Responds \<Rightarrow>
                  (case execute q rows of
                     [] \<Rightarrow> Inr None
                   | r # _ \<Rightarrow> Inr (Some r))))"

record sweep_env =
  sw_configured :: bool
  sw_list :: response
  sw_close :: "int \<Rightarrow> close_env"

text \<open>
  The loop of \<open>finalizar_atividades_em_andamento\<close>: one call of
  \<open>finalizar_atividade\<close> per id, with the client handed on; an exception of a call is
  logged and the loop goes on with the next id.
\<close>

fun finalizar_lote ::
  "(int \<Rightarrow> close_env) \<Rightarrow> client \<Rightarrow> int list \<Rightarrow> int \<Rightarrow> atividade list
     \<Rightarrow> int \<times> atividade list" where
  "finalizar_lote envs c [] sucesso rows = (sucesso, rows)"
| "finalizar_lote envs c (act_id # ids) sucesso rows =
     (case finalizar_atividade act_id (Some c) (envs act_id) rows of
        Inl e \<Rightarrow> finalizar_lote envs c ids sucesso rows
      | Inr (ok, rows') \<Rightarrow> finalizar_lote envs c ids (sucesso + 1) rows')"

definition finalizar_atividades_em_andamento ::
  "client option \<Rightarrow> sweep_env \<Rightarrow> atividade list \<Rightarrow> int \<times> atividade list" where
  "finalizar_atividades_em_andamento supabase_client env rows =
     (case client_or_new supabase_client (sw_configured env) of
        Inl e \<Rightarrow> (0, rows)
      | Inr c \<Rightarrow>
          (case sw_list env of
             Raises \<Rightarrow> (0, rows)
           | Resp_error \<Rightarrow> (0, rows)
           | Responds \<Rightarrow>
               (let ids = map ativ_id (execute (is_fim_null select_rows) rows)
                in finalizar_lote (sw_close env) c ids 0 rows)))"

section \<open>The main screen: \<open>GUI_principal.py\<close>\<close>

text \<open>
  \<open>MainScreen\<close> keeps the id of the running activity, the selected activity type and
  the selected toggle button, and writes to the widgets of the screen. The widgets
  named in the class's docstring are fields of the record; a toggle button is known
  by its text. Colours, and the down and enabled state of the activity toggles, only
  change what is drawn and are left out. The timer handle \<open>_auto_finalize_event\<close> is
  left out as well: the tick \<open>_auto_finalize_check\<close> is an event of the model.

  The handlers of the buttons, the ticks of the clock and the callbacks given to
  \<open>Clock.schedule_once\<close> all run on the main thread, one at a time. A worker thread
  started by a tick runs beside them; its call of \<open>finalizar_atividade\<close> is one event.

  A popup opened by \<open>show_error\<close> or \<open>show_success\<close> is an output of the operation.
  The messages are constructors, one per message text of the source.
\<close>

datatype mensagem =
    Selecione_um_tipo
  | Falha_ao_iniciar py_exception
  | Sem_atividade_em_andamento
  | Falha_ao_finalizar py_exception
  | Finalizada_com_sucesso
  | Falha_ao_finalizar_automaticamente py_exception
  | Finalizada_automaticamente string

datatype popup = Erro mensagem | Sucesso mensagem

datatype ui_text =
    Texto string
  | Selecionado string
  | Nenhuma_atividade_selecionada
  | Em_andamento string
  | Continuando string
  | Pronto_para_comecar
  | Atividade_em_andamento string

record main_screen =
  current_activity_id :: "int option"
  selected_activity_type :: "string option"
  selected_button :: "string option"
  auto_finalize_last_date :: "string \<Rightarrow> (int \<times> int \<times> int) option"
  activity_buttons :: "string list"
  selected_activity_label :: ui_text
  descricao_text :: string
  descricao_disabled :: bool
  status_label :: ui_text
  start_button_disabled :: bool
  end_button_disabled :: bool
  active_box_shown :: bool
  active_label :: ui_text

text \<open>
  What a worker thread hands back to the main thread through \<open>Clock.schedule_once\<close>:
  the error popup, or \<open>_on_auto_finalized_success\<close> with the checkpoint.
\<close>

datatype ui_callback =
    Cb_show_error py_exception
  | Cb_auto_finalized_success string

text \<open>
  The whole application as the screen sees it: the screen, \<open>app.user_id\<close>, the remote
  table, the worker threads that were started and have not yet made their call (each
  with its arguments, the id of the activity and the checkpoint), and the callbacks
  that wait for the main thread, oldest first.
\<close>

record sistema =
  tela :: main_screen
  app_user_id :: string
  atividades :: "atividade list"
  threads :: "(int \<times> string) list"
  callbacks :: "ui_callback list"

text \<open>
  \<open>__init__\<close> sets the three attributes to \<open>None\<close> and both checkpoints of
  \<open>_auto_finalize_last_date\<close> to \<open>None\<close>; a key that is missing and a key that
  holds \<open>None\<close> read the same through \<open>dict.get\<close>.
\<close>

definition main_screen_init :: "main_screen \<Rightarrow> main_screen" where
  "main_screen_init widgets =
     widgets\<lparr>current_activity_id := None, selected_activity_type := None,
             selected_button := None, auto_finalize_last_date := (\<lambda>hhmm. None)\<rparr>"

text \<open>
  Truth values of Python: \<open>not self.current_activity_id\<close> holds for \<open>None\<close> and for
  \<open>0\<close>, \<open>not self.selected_activity_type\<close> for \<open>None\<close> and for the empty string.
\<close>

definition truthy_id :: "int option \<Rightarrow> bool" where
  "truthy_id x = (case x of None \<Rightarrow> False | Some i \<Rightarrow> i \<noteq> 0)"

definition truthy_str :: "string option \<Rightarrow> bool" where
  "truthy_str x = (case x of None \<Rightarrow> False | Some t \<Rightarrow> t \<noteq> [])"

definition on_activity_toggled :: "string \<Rightarrow> bool \<Rightarrow> string \<Rightarrow> main_screen \<Rightarrow> main_screen" where
  "on_activity_toggled inst down activity_type s =
     (if down
      then s\<lparr>selected_button := Some inst, selected_activity_type := Some activity_type,
             selected_activity_label := Selecionado activity_type\<rparr>
      else if selected_button s = Some inst
      then s\<lparr>selected_button := None, selected_activity_type := None,
             selected_activity_label := Nenhuma_atividade_selecionada\<rparr>
      else s)"

definition set_state_em_andamento :: "bool \<Rightarrow> main_screen \<Rightarrow> main_screen" where
  "set_state_em_andamento em_andamento s =
     s\<lparr>start_button_disabled := em_andamento,
       end_button_disabled := \<not> em_andamento,
       descricao_disabled := em_andamento\<rparr>"

definition show_active_box :: "string option \<Rightarrow> main_screen \<Rightarrow> main_screen" where
  "show_active_box tipo_atividade_or_none s =
     (case tipo_atividade_or_none of
        None \<Rightarrow> s\<lparr>active_box_shown := False, active_label := Texto []\<rparr>
      | Some t \<Rightarrow>
          (if t \<noteq> []
           then s\<lparr>active_box_shown := True, active_label := Atividade_em_andamento t\<rparr>
           else s\<lparr>active_box_shown := False, active_label := Texto []\<rparr>))"

text \<open>
  \<open>acao_iniciar\<close> tests the selected type only; it does not look at
  \<open>current_activity_id\<close>. The assignment to \<open>current_activity_id\<close> happens after
  \<open>iniciar_nova_atividade\<close> returns, so an exception leaves every attribute and
  widget as it was and shows the error popup.
\<close>

definition acao_iniciar :: "start_env \<Rightarrow> sistema \<Rightarrow> popup list \<times> sistema" where
  "acao_iniciar env sys =
     (case selected_activity_type (tela sys) of
        None \<Rightarrow> ([Erro Selecione_um_tipo], sys)
      | Some tipo \<Rightarrow>
          (if tipo = [] then ([Erro Selecione_um_tipo], sys)
           else
             (let descr = descricao_text (tela sys)
              in case iniciar_nova_atividade tipo descr (app_user_id sys) None env
                        (atividades sys) of
                   Inl e \<Rightarrow> ([Erro (Falha_ao_iniciar e)], sys)
                 | Inr (new_id, rows') \<Rightarrow>
                     ([], sys\<lparr>tela :=
                               set_state_em_andamento True
                                 (show_active_box (Some tipo)
                                    ((tela sys)\<lparr>current_activity_id := new_id,
                                                status_label := Em_andamento tipo\<rparr>)),
                             atividades := rows'\<rparr>))))"

text \<open>
  The block that \<open>acao_finalizar\<close> and \<open>_on_auto_finalized_success\<close> both run after a
  successful close. Setting the state of the selected button to \<open>normal\<close> calls
  \<open>on_activity_toggled\<close> for it.
\<close>

definition reset_local :: "main_screen \<Rightarrow> main_screen" where
  "reset_local s =
     (let s1 = s\<lparr>current_activity_id := None\<rparr>;
          s2 = (case selected_button s1 of
                  None \<Rightarrow> s1
                | Some b \<Rightarrow> (on_activity_toggled b False b s1)\<lparr>selected_button := None\<rparr>);
          s3 = s2\<lparr>selected_activity_type := None,
                  selected_activity_label := Nenhuma_atividade_selecionada,
                  descricao_text := [],
                  status_label := Pronto_para_comecar\<rparr>
      in set_state_em_andamento False (show_active_box None s3))"

definition acao_finalizar :: "close_env \<Rightarrow> sistema \<Rightarrow> popup list \<times> sistema" where
  "acao_finalizar env sys =
     (case current_activity_id (tela sys) of
        None \<Rightarrow> ([Erro Sem_atividade_em_andamento], sys)
      | Some act_id \<Rightarrow>
          (if act_id = 0 then ([Erro Sem_atividade_em_andamento], sys)
           else
             (case finalizar_atividade act_id None env (atividades sys) of
                Inl e \<Rightarrow> ([Erro (Falha_ao_finalizar e)], sys)
              | Inr (ok, rows') \<Rightarrow>
                  ([Sucesso Finalizada_com_sucesso],
                   sys\<lparr>tela := reset_local (tela sys), atividades := rows'\<rparr>))))"

subsection \<open>Resuming on login\<close>

text \<open>
  \<open>verificar_atividade_em_andamento\<close> asks for the open activity of the logged-in
  user. The loop over the toggle buttons selects the button whose text is the stored
  type, if there is one.
\<close>

definition verificar_atividade_em_andamento :: "query_env \<Rightarrow> sistema \<Rightarrow> sistema" where
  "verificar_atividade_em_andamento env sys =
     (case buscar_atividade_em_andamento (Some (app_user_id sys)) None env
             (atividades sys) of
        Inl e \<Rightarrow> sys\<lparr>tela := set_state_em_andamento False (tela sys)\<rparr>
      | Inr None \<Rightarrow> sys\<lparr>tela := set_state_em_andamento False (tela sys)\<rparr>
      | Inr (Some row) \<Rightarrow>
          (let tipo = tipo_atividade row;
               s1 = (tela sys)\<lparr>current_activity_id := Some (ativ_id row),
                               selected_activity_type := Some tipo\<rparr>;
               s2 = (if tipo \<in> set (activity_buttons s1)
                     then (on_activity_toggled tipo True tipo s1)\<lparr>selected_button := Some tipo\<rparr>
                     else s1);
               s3 = s2\<lparr>selected_activity_label := Continuando tipo,
                       descricao_text := descricao row,
                       status_label := Continuando tipo\<rparr>
           in sys\<lparr>tela := set_state_em_andamento True (show_active_box (Some tipo) s3)\<rparr>))"

definition activity_types :: "string list" where
  "activity_types =
     [''Pesquisa e Desenvolvimento'',
      ''Atendimento de F'' @ [CHR 0xC3, CHR 0xA1] @ ''brica'',
      ''Documenta'' @ [CHR 0xC3, CHR 0xA7, CHR 0xC3, CHR 0xA3] @ ''o'',
      ''Gabaritos e Dispositivos'',
      ''Cadastro'',
      ''Reuni'' @ [CHR 0xC3, CHR 0xB5] @ ''es'',
      ''Custos'',
      ''Finame'',
      ''RNC'',
      ''Outros'']"

definition carregar_atividades :: "query_env \<Rightarrow> sistema \<Rightarrow> sistema" where
  "carregar_atividades env sys =
     verificar_atividade_em_andamento env
       (sys\<lparr>tela := (tela sys)\<lparr>activity_buttons := activity_types\<rparr>\<rparr>)"

subsection \<open>The scheduler\<close>

text \<open>
  \<open>strftime("%H:%M")\<close> and \<open>now.date()\<close> of the clock reading.
\<close>

definition two_digits :: "int \<Rightarrow> string" where
  "two_digits n = [''0123456789'' ! nat (n div 10), ''0123456789'' ! nat (n mod 10)]"

definition strftime_HM :: "py_datetime \<Rightarrow> string" where
  "strftime_HM now = two_digits (dt_hour now) @ '':'' @ two_digits (dt_minute now)"

definition date_of :: "py_datetime \<Rightarrow> int \<times> int \<times> int" where
  "date_of now = (dt_year now, dt_month now, dt_day now)"

definition targets :: "string list" where
  "targets = [''11:28'', ''16:10'']"

text \<open>
  One tick. The date is written before the worker thread is started, whether or not
  an activity is running. Starting the thread adds it, with its arguments, to the
  threads of the system.
\<close>

definition auto_finalize_check :: "py_datetime \<Rightarrow> sistema \<Rightarrow> sistema" where
  "auto_finalize_check now sys =
     (let hhmm = strftime_HM now;
          today = date_of now
      in if hhmm \<in> set targets \<and> auto_finalize_last_date (tela sys) hhmm \<noteq> Some today
         then
           (let sys' = sys\<lparr>tela := (tela sys)\<lparr>auto_finalize_last_date :=
                             (auto_finalize_last_date (tela sys))(hhmm := Some today)\<rparr>\<rparr>
            in case current_activity_id (tela sys) of
                 None \<Rightarrow> sys'
               | Some activity_id \<Rightarrow>
                   (if activity_id = 0 then sys'
                    else sys'\<lparr>threads := threads sys' @ [(activity_id, hhmm)]\<rparr>))
         else sys)"

definition worker_finalize ::
  "int \<Rightarrow> string \<Rightarrow> close_env \<Rightarrow> atividade list \<Rightarrow> ui_callback \<times> atividade list" where
  "worker_finalize act_id time_str env rows =
     (case finalizar_atividade act_id None env rows of
        Inl e \<Rightarrow> (Cb_show_error e, rows)
      | Inr (ok, rows') \<Rightarrow> (Cb_auto_finalized_success time_str, rows'))"

definition on_auto_finalized_success :: "string \<Rightarrow> main_screen \<Rightarrow> popup list \<times> main_screen" where
  "on_auto_finalized_success time_str s =
     ([Sucesso (Finalizada_automaticamente time_str)], reset_local s)"

definition run_callback :: "ui_callback \<Rightarrow> main_screen \<Rightarrow> popup list \<times> main_screen" where
  "run_callback cb s =
     (case cb of
        Cb_show_error e \<Rightarrow> ([Erro (Falha_ao_finalizar_automaticamente e)], s)
      | Cb_auto_finalized_success time_str \<Rightarrow> on_auto_finalized_success time_str s)"

text \<open>
  A started worker thread makes its call and schedules its callback; the main thread
  then runs the oldest waiting callback. Both are events of their own, so that button
  handlers and ticks can come between them.
\<close>

definition run_worker :: "int \<times> string \<Rightarrow> close_env \<Rightarrow> sistema \<Rightarrow> sistema" where
  "run_worker job env sys =
     (if job \<in> set (threads sys)
      then
        (case worker_finalize (fst job) (snd job) env (atividades sys) of
           (cb, rows') \<Rightarrow>
             sys\<lparr>atividades := rows', threads := remove1 job (threads sys),
                 callbacks := callbacks sys @ [cb]\<rparr>)
      else sys)"

definition run_next_callback :: "sistema \<Rightarrow> popup list \<times> sistema" where
  "run_next_callback sys =
     (case callbacks sys of
        [] \<Rightarrow> ([], sys)
      | cb # cbs \<Rightarrow>
          (case run_callback cb (tela sys) of
             (popups, s') \<Rightarrow> (popups, sys\<lparr>tela := s', callbacks := cbs\<rparr>)))"

subsection \<open>Runs of the screen\<close>

text \<open>
  What can happen to a running screen, one event at a time: a toggle button of an
  activity type changes state (\<open>on_activity_toggled\<close>), the start or the stop button
  is pressed, the clock ticks, a worker thread that a tick started makes its call of
  \<open>finalizar_atividade\<close>, the main thread runs the oldest waiting callback. The
  answers of the remote store come with the events that call it.
\<close>

datatype evento =
    Toggle string bool string
  | Iniciar start_env
  | Finalizar close_env
  | Tick py_datetime
  | Worker "int \<times> string" close_env
  | Callback

fun passo :: "sistema \<Rightarrow> evento \<Rightarrow> sistema" where
  "passo sys (Toggle inst down activity_type) =
     sys\<lparr>tela := on_activity_toggled inst down activity_type (tela sys)\<rparr>"
| "passo sys (Iniciar env) = snd (acao_iniciar env sys)"
| "passo sys (Finalizar env) = snd (acao_finalizar env sys)"
| "passo sys (Tick now) = auto_finalize_check now sys"
| "passo sys (Worker job env) = run_worker job env sys"
| "passo sys Callback = snd (run_next_callback sys)"

fun executar :: "sistema \<Rightarrow> evento list \<Rightarrow> sistema" where
  "executar sys [] = sys"
| "executar sys (e # es) = executar (passo sys e) es"

text \<open>
  The start button is disabled by \<open>_set_state_em_andamento(True)\<close>; a disabled button
  does not call its handler. \<open>ui_permite sys es\<close> holds when every \<open>Iniciar\<close> of the run
  happens while the start button is enabled and no automatic close is under way: no
  worker thread is running and no callback of one is waiting.
\<close>

fun ui_permite :: "sistema \<Rightarrow> evento list \<Rightarrow> bool" where
  "ui_permite sys [] = True"
| "ui_permite sys (e # es) =
     ((case e of
         Toggle inst down activity_type \<Rightarrow> True
       | Iniciar env \<Rightarrow>
           \<not> start_button_disabled (tela sys) \<and> threads sys = [] \<and> callbacks sys = []
       | Finalizar env \<Rightarrow> True
       | Tick now \<Rightarrow> True
       | Worker job env \<Rightarrow> True
       | Callback \<Rightarrow> True) \<and>
      ui_permite (passo sys e) es)"

text \<open>
  The open activities that a run created: open rows of the table after the run whose
  id was not in the table before it.
\<close>

definition abertas :: "atividade list \<Rightarrow> atividade list" where
  "abertas rows = filter (\<lambda>r. fim r = None) rows"

definition criadas_abertas :: "atividade list \<Rightarrow> atividade list \<Rightarrow> atividade list" where
  "criadas_abertas rows0 rows =
     filter (\<lambda>r. ativ_id r \<notin> set (map ativ_id rows0)) (abertas rows)"

fun tick_dates :: "evento list \<Rightarrow> (int \<times> int \<times> int) list" where
  "tick_dates [] = []"
| "tick_dates (Tick now # es) = date_of now # tick_dates es"
| "tick_dates (e # es) = tick_dates es"

text \<open>
  What the screen keeps true of the activities it created, relative to the table
  \<open>rows0\<close> it started from: no id of \<open>rows0\<close> has left the table; at most one created
  activity is open; while one is open the start button is disabled; a
  \<open>current_activity_id\<close> that counts as set is the id of that activity; so is the id
  that any running worker thread was started for; and no callback of a successful
  automatic close is waiting.
\<close>

definition success_waiting :: "ui_callback list \<Rightarrow> bool" where
  "success_waiting cbs = (\<exists>time_str. Cb_auto_finalized_success time_str \<in> set cbs)"

definition uma_aberta :: "atividade list \<Rightarrow> sistema \<Rightarrow> bool" where
  "uma_aberta rows0 sys =
     (set (map ativ_id rows0) \<subseteq> set (map ativ_id (atividades sys)) \<and>
      length (criadas_abertas rows0 (atividades sys)) \<le> 1 \<and>
      (criadas_abertas rows0 (atividades sys) \<noteq> [] \<longrightarrow>
         start_button_disabled (tela sys) \<and> \<not> success_waiting (callbacks sys)) \<and>
      (\<forall>r \<in> set (criadas_abertas rows0 (atividades sys)).
         (truthy_id (current_activity_id (tela sys)) \<longrightarrow>
            current_activity_id (tela sys) = Some (ativ_id r)) \<and>
         (\<forall>job \<in> set (threads sys). fst job = ativ_id r)))"

text \<open>
  What a stop by the button does to the parts of the system that the invariant
  reads: nothing, or it closes the rows whose id is \<open>current_activity_id\<close>.
\<close>

definition stop_like :: "sistema \<Rightarrow> sistema \<Rightarrow> bool" where
  "stop_like sys sys' =
     (threads sys' = threads sys \<and> callbacks sys' = callbacks sys \<and>
      ((atividades sys' = atividades sys \<and>
        current_activity_id (tela sys') = current_activity_id (tela sys) \<and>
        start_button_disabled (tela sys') = start_button_disabled (tela sys)) \<or>
       (\<exists>i t h. current_activity_id (tela sys) = Some i \<and> i \<noteq> 0 \<and>
          atividades sys' = map (close_row i t h) (atividades sys))))"

text \<open>
  A call of \<open>finalizar_atividade\<close> goes through when a client is at hand and both
  requests are answered.
\<close>

definition responds_all :: "client option \<Rightarrow> close_env \<Rightarrow> bool" where
  "responds_all supabase_client env =
     ((supabase_client \<noteq> None \<or> ce_configured env) \<and>
      ce_select env = Responds \<and> ce_update env = Responds)"

definition insert_fails :: "start_env \<Rightarrow> bool" where
  "insert_fails env =
     (\<not> se_configured env \<or> se_insert env = Insert_resp_error \<or>
      se_insert env = Insert_raises)"

section \<open>Local accounts: \<open>GUI_login.py\<close>\<close>

text \<open>
  The standard library does the encoding and the key derivation. Its functions are
  parameters of the model: \<open>str.encode('utf-8')\<close>, \<open>base64.b64encode\<close> followed by
  \<open>decode('ascii')\<close>, \<open>base64.b64decode\<close>, and \<open>hashlib.pbkdf2_hmac('sha256', ...)\<close>;
  all but the encoder of base64 may raise. Byte strings and text are both \<open>string\<close>.
  \<open>secrets.compare_digest\<close> is equality of byte strings, computed in constant time.
\<close>

record stdlib =
  encode_utf8 :: "string \<Rightarrow> py_exception + string"
  b64encode :: "string \<Rightarrow> string"
  b64decode :: "string \<Rightarrow> py_exception + string"
  pbkdf2_hmac_sha256 :: "string \<Rightarrow> string \<Rightarrow> int \<Rightarrow> py_exception + string"

definition compare_digest :: "string \<Rightarrow> string \<Rightarrow> bool" where
  "compare_digest a b = (a = b)"

text \<open>
  The contract of the base64 functions that the module relies on: decoding what was
  encoded gives the bytes back.
\<close>

definition b64_inverse :: "stdlib \<Rightarrow> bool" where
  "b64_inverse lib = (\<forall>bs. b64decode lib (b64encode lib bs) = Inr bs)"

record credential =
  cr_salt :: string
  cr_hash :: string
  cr_iters :: int

text \<open>
  \<open>hash_password\<close>: \<open>token_bytes\<close> stands for the 16 bytes that
  \<open>secrets.token_bytes(16)\<close> draws when no salt is given.
\<close>

definition hash_password ::
  "stdlib \<Rightarrow> string \<Rightarrow> string \<Rightarrow> string option \<Rightarrow> int \<Rightarrow> py_exception + credential" where
  "hash_password lib token_bytes password salt_opt iterations =
     (let salt = (case salt_opt of None \<Rightarrow> token_bytes | Some given \<Rightarrow> given)
      in case encode_utf8 lib password of
           Inl e \<Rightarrow> Inl e
         | Inr pwd \<Rightarrow>
             (case pbkdf2_hmac_sha256 lib pwd salt iterations of
                Inl e \<Rightarrow> Inl e
              | Inr dk \<Rightarrow>
                  Inr \<lparr>cr_salt = b64encode lib salt, cr_hash = b64encode lib dk,
                       cr_iters = iterations\<rparr>))"

definition verify_password ::
  "stdlib \<Rightarrow> string \<Rightarrow> string \<Rightarrow> string \<Rightarrow> int \<Rightarrow> py_exception + bool" where
  "verify_password lib password salt_b64 hash_b64 iterations =
     (case b64decode lib salt_b64 of
        Inl e \<Rightarrow> Inl e
      | Inr salt \<Rightarrow>
          (case b64decode lib hash_b64 of
             Inl e \<Rightarrow> Inl e
           | Inr expected \<Rightarrow>
               (case encode_utf8 lib password of
                  Inl e \<Rightarrow> Inl e
                | Inr pwd \<Rightarrow>
                    (case pbkdf2_hmac_sha256 lib pwd salt iterations of
                       Inl e \<Rightarrow> Inl e
                     | Inr dk \<Rightarrow> Inr (compare_digest dk expected)))))"

text \<open>
  A record of \<open>users.json\<close> as \<open>load_users\<close> returns it: a key may be missing. An
  empty record is falsy (\<open>if not record\<close>).
\<close>

record stored_record =
  sr_salt :: "string option"
  sr_hash :: "string option"
  sr_iters :: "int option"

text \<open>
  \<open>str.strip()\<close> removes white space at both ends; the characters below are the
  white space of ASCII.
\<close>

definition is_space :: "char \<Rightarrow> bool" where
  "is_space c =
     (c \<in> set [CHR 0x09, CHR 0x0A, CHR 0x0B, CHR 0x0C, CHR 0x0D,
               CHR 0x1C, CHR 0x1D, CHR 0x1E, CHR 0x1F, CHR 0x20])"

definition strip :: "string \<Rightarrow> string" where
  "strip t = rev (dropWhile is_space (rev (dropWhile is_space t)))"

datatype login_popup =
    Preencha_todos_os_campos
  | Usuario_nao_encontrado
  | Usuario_ou_senha_incorretos

text \<open>
  The \<open>try\<close> block of \<open>fazer_login\<close>: the record's fields are read, the password is
  verified, and any exception makes \<open>ok\<close> false.
\<close>

definition verificar_senha :: "stdlib \<Rightarrow> string \<Rightarrow> stored_record \<Rightarrow> bool" where
  "verificar_senha lib password record =
     (case sr_salt record of
        None \<Rightarrow> False
      | Some salt_b64 \<Rightarrow>
          (case sr_hash record of
             None \<Rightarrow> False
           | Some hash_b64 \<Rightarrow>
               (let iterations = (case sr_iters record of None \<Rightarrow> 200000 | Some n \<Rightarrow> n)
                in case verify_password lib password salt_b64 hash_b64 iterations of
                     Inl e \<Rightarrow> False
                   | Inr ok \<Rightarrow> ok)))"

definition fazer_login ::
  "stdlib \<Rightarrow> (string \<Rightarrow> stored_record option) \<Rightarrow> query_env \<Rightarrow> string \<Rightarrow> string \<Rightarrow> sistema
     \<Rightarrow> login_popup option \<times> sistema" where
  "fazer_login lib users env username0 password0 sys =
     (let username = strip username0;
          password = strip password0
      in if username = [] \<or> password = [] then (Some Preencha_todos_os_campos, sys)
         else
           (case users username of
              None \<Rightarrow> (Some Usuario_nao_encontrado, sys)
            | Some record \<Rightarrow>
                (if sr_salt record = None \<and> sr_hash record = None \<and> sr_iters record = None
                 then (Some Usuario_nao_encontrado, sys)
                 else if verificar_senha lib password record
                 then (None, carregar_atividades env (sys\<lparr>app_user_id := username\<rparr>))
                 else (Some Usuario_ou_senha_incorretos, sys))))"

text \<open>
  How a sweep leaves a row, given the set \<open>S\<close> of ids it closed: a row with an id in
  \<open>S\<close> keeps its id and has an end; every other row is untouched.
\<close>

definition swept :: "int set \<Rightarrow> atividade \<Rightarrow> atividade \<Rightarrow> bool" where
  "swept S r r' =
     (if ativ_id r \<in> S then ativ_id r' = ativ_id r \<and> fim r' \<noteq> None else r' = r)"

section \<open>Example data\<close>

text \<open>
  Concrete rows and environments for the examples below: an open activity, a close
  that goes through at a given instant, and a close whose update is refused.
\<close>

definition ex_row :: "int \<Rightarrow> string \<Rightarrow> int \<Rightarrow> atividade" where
  "ex_row i u t =
     \<lparr>ativ_id = i, tipo_atividade = ''Cadastro'', descricao = [], inicio = t,
      fim = None, user_id = u, ano = 2025, mes = 1, dia = 6,
      horas_trabalhadas = None\<rparr>"

definition ex_close :: "int \<Rightarrow> close_env" where
  "ex_close t =
     \<lparr>ce_configured = True, ce_select = Responds, ce_now = t, ce_update = Responds\<rparr>"

definition ex_close_refused :: "int \<Rightarrow> close_env" where
  "ex_close_refused t =
     \<lparr>ce_configured = True, ce_select = Responds, ce_now = t, ce_update = Resp_error\<rparr>"

definition ex_sweep_all :: sweep_env where
  "ex_sweep_all =
     \<lparr>sw_configured = True, sw_list = Responds, sw_close = (\<lambda>i. ex_close 7200000000)\<rparr>"

definition ex_sweep_11_fails :: sweep_env where
  "ex_sweep_11_fails =
     \<lparr>sw_configured = True, sw_list = Responds,
      sw_close = (\<lambda>i. if i = 11 then ex_close_refused 7200000000
                       else ex_close 7200000000)\<rparr>"

text \<open>
  A screen with the type \<open>Cadastro\<close> selected and no activity running, for the user
  \<open>ana\<close> and an empty table; a clock reading at the checkpoint 11:28; an insert that
  goes through and one that is refused.
\<close>

definition ex_widgets :: main_screen where
  "ex_widgets =
     \<lparr>current_activity_id = None, selected_activity_type = None,
      selected_button = None, auto_finalize_last_date = (\<lambda>hhmm. None),
      activity_buttons = activity_types,
      selected_activity_label = Nenhuma_atividade_selecionada,
      descricao_text = [], descricao_disabled = False,
      status_label = Pronto_para_comecar,
      start_button_disabled = False, end_button_disabled = True,
      active_box_shown = False, active_label = Texto []\<rparr>"

definition ex_idle :: sistema where
  "ex_idle =
     \<lparr>tela = on_activity_toggled ''Cadastro'' True ''Cadastro'' (main_screen_init ex_widgets),
      app_user_id = ''ana'', atividades = [], threads = [], callbacks = []\<rparr>"

definition ex_now :: "int \<Rightarrow> py_datetime" where
  "ex_now t =
     \<lparr>dt_year = 2025, dt_month = 1, dt_day = 6, dt_hour = 11, dt_minute = 28,
      dt_instant = t\<rparr>"

definition ex_start :: start_env where
  "ex_start = \<lparr>se_configured = True, se_now = ex_now 0, se_insert = Insert_returns_row\<rparr>"

definition ex_start_refused :: start_env where
  "ex_start_refused =
     \<lparr>se_configured = True, se_now = ex_now 0, se_insert = Insert_resp_error\<rparr>"

definition ex_active :: sistema where
  "ex_active = snd (acao_iniciar ex_start ex_idle)"

text \<open>
  Three runs. In the first the scheduler closes activity 1 and the user starts again.
  In the second the user stops activity 1 while the worker thread of the tick is still
  running, and starts activity 2 before the thread makes its call. The third continues
  the tick at 11:28 with activity 1 running: the update of the close is refused, the
  error callback runs, and there is one more tick.
\<close>

definition ex_auto_run :: "evento list" where
  "ex_auto_run =
     [Iniciar ex_start, Tick (ex_now 100), Worker (1, ''11:28'') (ex_close 3600000000),
      Callback, Toggle ''Cadastro'' True ''Cadastro'', Iniciar ex_start]"

definition ex_late_worker_run :: "evento list" where
  "ex_late_worker_run =
     [Iniciar ex_start, Tick (ex_now 100), Finalizar (ex_close 200),
      Toggle ''Cadastro'' True ''Cadastro'', Iniciar ex_start,
      Worker (1, ''11:28'') (ex_close 300), Callback,
      Toggle ''Cadastro'' True ''Cadastro'', Iniciar ex_start]"

definition ex_refused_run :: "evento list" where
  "ex_refused_run =
     [Worker (1, ''11:28'') (ex_close_refused 100), Callback, Tick (ex_now 200)]"

text \<open>
  A lookup that is answered, and a table with two open activities of \<open>ana\<close> and one
  of \<open>bia\<close>.
\<close>

definition ex_query :: query_env where
  "ex_query = \<lparr>qe_configured = True, qe_resp = Responds\<rparr>"

definition ex_login :: sistema where
  "ex_login =
     \<lparr>tela = main_screen_init ex_widgets, app_user_id = ''ana'',
      atividades = [ex_row 10 ''ana'' 0, ex_row 11 ''ana'' 5, ex_row 12 ''bia'' 7],
      threads = [], callbacks = []\<rparr>"

text \<open>
  A standard library for the examples: text is taken as its bytes, base64 is the
  encoding of RFC 4648 with padding and a decoder that accepts exactly the padded
  groups of four (the decoder of Python also skips characters outside the alphabet),
  and the key derivation is a stand-in that refuses an iteration count below 1 as
  \<open>pbkdf2_hmac\<close> does. A users file in which the salt of \<open>ana\<close> has five characters
  and so does not decode.
\<close>

definition b64_alphabet :: string where
  "b64_alphabet = ''ABCDEFGHIJKLMNOPQRSTUVWXYZabcdefghijklmnopqrstuvwxyz0123456789+/''"

definition sextet_char :: "nat \<Rightarrow> char" where
  "sextet_char n = b64_alphabet ! n"

definition char_sextet :: "char \<Rightarrow> nat option" where
  "char_sextet c = map_of (zip b64_alphabet [0..<64]) c"

fun rfc4648_encode :: "nat list \<Rightarrow> string" where
  "rfc4648_encode [] = []"
| "rfc4648_encode [a] =
     [sextet_char (a div 4), sextet_char ((a mod 4) * 16), CHR ''='', CHR ''='']"
| "rfc4648_encode [a, b] =
     [sextet_char (a div 4), sextet_char ((a mod 4) * 16 + b div 16),
      sextet_char ((b mod 16) * 4), CHR ''='']"
| "rfc4648_encode (a # b # c # bs) =
     [sextet_char (a div 4), sextet_char ((a mod 4) * 16 + b div 16),
      sextet_char ((b mod 16) * 4 + c div 64), sextet_char (c mod 64)] @ rfc4648_encode bs"

fun rfc4648_decode :: "string \<Rightarrow> py_exception + nat list" where
  "rfc4648_decode [] = Inr []"
| "rfc4648_decode (c1 # c2 # c3 # c4 # cs) =
     (case (char_sextet c1, char_sextet c2) of
        (Some s1, Some s2) \<Rightarrow>
          (if c3 = CHR ''='' \<and> c4 = CHR ''='' \<and> cs = [] then Inr [s1 * 4 + s2 div 16]
           else
             (case char_sextet c3 of
                None \<Rightarrow> Inl Library_exception
              | Some s3 \<Rightarrow>
                  (if c4 = CHR ''='' \<and> cs = []
                   then Inr [s1 * 4 + s2 div 16, (s2 mod 16) * 16 + s3 div 4]
                   else
                     (case char_sextet c4 of
                        None \<Rightarrow> Inl Library_exception
                      | Some s4 \<Rightarrow>
                          (case rfc4648_decode cs of
                             Inl e \<Rightarrow> Inl e
                           | Inr rest \<Rightarrow>
                               Inr ([s1 * 4 + s2 div 16, (s2 mod 16) * 16 + s3 div 4,
                                     (s3 mod 4) * 64 + s4] @ rest))))))
      | _ \<Rightarrow> Inl Library_exception)"
| "rfc4648_decode cs = Inl Library_exception"

definition toy_kdf :: "string \<Rightarrow> string \<Rightarrow> int \<Rightarrow> py_exception + string" where
  "toy_kdf pwd salt iterations =
     (if iterations < 1 then Inl Library_exception else Inr (rev pwd @ salt))"

definition ex_stdlib :: stdlib where
  "ex_stdlib =
     \<lparr>encode_utf8 = Inr,
      b64encode = (\<lambda>bs. rfc4648_encode (map of_char bs)),
      b64decode = (\<lambda>t. case rfc4648_decode t of
                          Inl e \<Rightarrow> Inl e
                        | Inr ns \<Rightarrow> Inr (map char_of ns)),
      pbkdf2_hmac_sha256 = toy_kdf\<rparr>"


definition ex_users :: "string \<Rightarrow> stored_record option" where
  "ex_users u =
     (if u = ''ana''
      then Some \<lparr>sr_salt = Some ''MDEyM'', sr_hash = Some ''YWhuZXMwMTIzNDU2Nzg5YWJjZGVm'',
                 sr_iters = Some 200000\<rparr>
      else None)"

section \<open>Verification\<close>

subsection \<open>Hours worked\<close>

lemma round_half_even_close: "\<bar>of_int (round_half_even y) - y\<bar> \<le> 1 / 2"
proof -
  have "of_int \<lfloor>y\<rfloor> \<le> y" and "y < of_int \<lfloor>y\<rfloor> + 1"
    by linarith+
  then show ?thesis
    by (auto simp: round_half_even_def Let_def)
qed

lemma round_half_even_nonneg: "0 \<le> y \<Longrightarrow> 0 \<le> round_half_even y"
proof -
  assume "0 \<le> y"
  then have "0 \<le> \<lfloor>y\<rfloor>" by simp
  then show ?thesis
    by (simp add: round_half_even_def Let_def)
qed

lemma round_half_even_neg:
  assumes "y \<le> - 1"
  shows "round_half_even y < 0"
proof (cases "\<lfloor>y\<rfloor> = - 1")
  case True
  then have "of_int \<lfloor>y\<rfloor> = (- 1 :: rat)" by simp
  moreover have "of_int \<lfloor>y\<rfloor> \<le> y" by linarith
  ultimately have "y = - 1" using assms by linarith
  then show ?thesis
    by (simp add: round_half_even_def Let_def)
next
  case False
  moreover have "\<lfloor>y\<rfloor> \<le> - 1" using assms by (simp add: floor_le_iff)
  ultimately have "\<lfloor>y\<rfloor> + 1 < 0" by linarith
  then show ?thesis
    by (simp add: round_half_even_def Let_def)
qed

lemma py_round_grid: "\<exists>k::int. py_round x n = of_int k / 10 ^ n"
  unfolding py_round_def by blast

lemma py_round_close: "\<bar>py_round x n - x\<bar> \<le> 1 / (2 * 10 ^ n)"
proof -
  define m where "m = round_half_even (x * 10 ^ n)"
  have half: "\<bar>of_int m - x * 10 ^ n\<bar> \<le> 1 / 2"
    unfolding m_def by (rule round_half_even_close)
  have "py_round x n - x = (of_int m - x * 10 ^ n) / 10 ^ n"
    by (simp add: py_round_def m_def diff_divide_distrib)
  then have "\<bar>py_round x n - x\<bar> = \<bar>of_int m - x * 10 ^ n\<bar> / 10 ^ n"
    by simp
  also have "\<dots> \<le> (1 / 2) / 10 ^ n"
    by (rule divide_right_mono) (use half in simp_all)
  finally show ?thesis by simp
qed

lemma py_round_nonneg: "0 \<le> x \<Longrightarrow> 0 \<le> py_round x n"
  by (simp add: py_round_def round_half_even_nonneg)

lemma py_round_neg: "x * 10 ^ n \<le> - 1 \<Longrightarrow> py_round x n < 0"
  by (simp add: py_round_def round_half_even_neg divide_less_0_iff)

lemma horas_some:
  "calcular_horas_trabalhadas i (Some t) =
   Some (py_round (of_int (t - i) / 3600000000) 10)"
  by (simp add: calcular_horas_trabalhadas_def total_seconds_def Let_def)

lemma horas_none_iff: "(calcular_horas_trabalhadas i f = None) = (f = None)"
  by (cases f) (simp_all add: calcular_horas_trabalhadas_def Let_def)

text \<open>
  Claim C9, as stated, asks for a result that is never negative. An end one hour
  before the start gives \<open>-1\<close>: the function subtracts and does not clamp.
\<close>

theorem calcular_horas_negative_example:
  "calcular_horas_trabalhadas 3600000000 (Some 0) = Some (- 1) \<and> (- 1 :: rat) < 0"
  by (simp add: calcular_horas_trabalhadas_def total_seconds_def py_round_def
      round_half_even_def Let_def)

text \<open>
  Claim C9, amended: \<open>calcular_horas_trabalhadas\<close> returns \<open>None\<close> exactly when the
  end is absent; otherwise it returns a multiple of \<open>10 ^ - 10\<close> within half such a
  step of the difference end minus start in hours (instants in microseconds, so one
  hour is \<open>3600000000\<close>); the result is non-negative when the end is not before the
  start, and negative when it is.
\<close>

theorem calcular_horas_trabalhadas_delta:
  "(calcular_horas_trabalhadas i f = None \<longleftrightarrow> f = None) \<and>
   (\<forall>t h. calcular_horas_trabalhadas i (Some t) = Some h \<longrightarrow>
      (\<exists>k::int. h = of_int k / 10 ^ 10) \<and>
      \<bar>h - of_int (t - i) / 3600000000\<bar> \<le> 1 / 20000000000 \<and>
      (i \<le> t \<longrightarrow> 0 \<le> h) \<and> (t < i \<longrightarrow> h < 0))"
proof (intro conjI allI impI)
  show "(calcular_horas_trabalhadas i f = None) = (f = None)"
    by (rule horas_none_iff)
next
  fix t h assume "calcular_horas_trabalhadas i (Some t) = Some h"
  then have h: "h = py_round (of_int (t - i) / 3600000000) 10"
    by (simp add: horas_some)
  show "\<exists>k::int. h = of_int k / 10 ^ 10"
    unfolding h by (rule py_round_grid)
  show "\<bar>h - of_int (t - i) / 3600000000\<bar> \<le> 1 / 20000000000"
    unfolding h using py_round_close[of "of_int (t - i) / 3600000000" 10] by simp
  show "0 \<le> h" if "i \<le> t"
    unfolding h using that by (intro py_round_nonneg) simp
  show "h < 0" if "t < i"
  proof -
    from that have "t - i \<le> - 1" by simp
    then have "(of_int (t - i) :: rat) \<le> - 1"
      by (metis of_int_le_iff of_int_minus of_int_1)
    then have "(of_int (t - i) :: rat) / 3600000000 * 10 ^ 10 \<le> - 1" by simp
    then show ?thesis unfolding h by (rule py_round_neg)
  qed
qed

text \<open>
  The scenario of the specification: an activity closed two and a half hours after
  its start has \<open>2.5\<close> hours.
\<close>

theorem calcular_horas_trabalhadas_delta_witness:
  "calcular_horas_trabalhadas 0 (Some 9000000000) = Some (5 / 2) \<and>
   \<bar>5 / 2 - of_int (9000000000 - 0) / (3600000000 :: rat)\<bar> \<le> 1 / 20000000000 \<and>
   (0 :: rat) \<le> 5 / 2"
  using calcular_horas_trabalhadas_delta[of 0 "Some 9000000000"]
  by (simp add: calcular_horas_trabalhadas_def total_seconds_def py_round_def
      round_half_even_def Let_def)

subsection \<open>Closing an activity\<close>

lemma execute_eq_id:
  "execute (eq_id i select_rows) rows = filter (\<lambda>r. ativ_id r = i) rows"
  by (simp add: execute_def eq_id_def select_rows_def matches_def[abs_def])

lemma execute_is_fim_null: "execute (is_fim_null select_rows) rows = abertas rows"
  by (simp add: execute_def is_fim_null_def select_rows_def matches_def[abs_def] abertas_def)

lemma client_or_new_cases:
  "client_or_new sc b = (if sc \<noteq> None \<or> b then Inr Client else Inl Supabase_env_missing)"
  by (cases sc) (auto simp: client_or_new_def get_supabase_client_def intro: client.exhaust)

lemma filter_id_nonempty:
  "i \<in> ativ_id ` set rows \<Longrightarrow> filter (\<lambda>r. ativ_id r = i) rows \<noteq> []"
  by (auto simp: filter_empty_conv)

lemma finalizar_atividade_responds:
  assumes "responds_all sc env" and "filter (\<lambda>r. ativ_id r = i) rows = a # as"
  shows "finalizar_atividade i sc env rows =
     Inr (True, map (close_row i (ce_now env)
        (calcular_horas_trabalhadas (inicio a) (Some (ce_now env)))) rows)"
  using assms
  by (simp add: finalizar_atividade_def responds_all_def client_or_new_cases
      execute_eq_id Let_def)

lemma finalizar_atividade_fails:
  assumes "\<not> responds_all sc env"
  shows "\<exists>e. finalizar_atividade i sc env rows = Inl e"
  using assms
  by (auto simp: finalizar_atividade_def responds_all_def client_or_new_cases
      execute_eq_id Let_def split: response.splits list.splits)

lemma finalizar_atividade_Inr:
  assumes "finalizar_atividade i sc env rows = Inr (b, rows')"
  shows "responds_all sc env \<and> b \<and>
     (\<exists>a as. filter (\<lambda>r. ativ_id r = i) rows = a # as \<and>
        rows' = map (close_row i (ce_now env)
          (calcular_horas_trabalhadas (inicio a) (Some (ce_now env)))) rows)"
  using assms
  by (auto simp: finalizar_atividade_def responds_all_def client_or_new_cases
      execute_eq_id Let_def split: response.splits list.splits if_splits)

lemma close_row_twice: "close_row i t2 h2 (close_row i t1 h1 r) = close_row i t2 h2 r"
  by (simp add: close_row_def)

lemma filter_id_close_row:
  "filter (\<lambda>r. ativ_id r = i) (map (close_row j t h) rows) =
   map (close_row j t h) (filter (\<lambda>r. ativ_id r = i) rows)"
  by (induction rows) (auto simp: close_row_def)

lemma inicio_close_row: "inicio (close_row j t h r) = inicio r"
  by (simp add: close_row_def)

text \<open>
  Claim C4, as stated, asks that closing a closed activity changes nothing. An
  activity started at instant 0 and closed after one hour, closed again at two and a
  half hours: the second call returns \<open>True\<close> like the first, and the row now ends at
  two and a half hours with \<open>2.5\<close> hours worked.
\<close>

theorem finalizar_atividade_twice_example:
  "finalizar_atividade 42 None (ex_close 3600000000) [ex_row 42 ''ana'' 0] =
     Inr (True, [(ex_row 42 ''ana'' 0)\<lparr>fim := Some 3600000000,
                                       horas_trabalhadas := Some 1\<rparr>]) \<and>
   finalizar_atividade 42 None (ex_close 9000000000)
       [(ex_row 42 ''ana'' 0)\<lparr>fim := Some 3600000000, horas_trabalhadas := Some 1\<rparr>] =
     Inr (True, [(ex_row 42 ''ana'' 0)\<lparr>fim := Some 9000000000,
                                       horas_trabalhadas := Some (5 / 2)\<rparr>])"
  by (simp add: finalizar_atividade_def client_or_new_def get_supabase_client_def
      execute_eq_id ex_close_def ex_row_def close_row_def calcular_horas_trabalhadas_def
      total_seconds_def py_round_def round_half_even_def Let_def)

text \<open>
  Claim C4, amended: \<open>finalizar_atividade\<close> does not look at \<open>fim\<close>. A call on an
  activity that an earlier call closed behaves as the same call on the activity
  before it was closed: it fails in the same cases, and when its requests are
  answered it returns \<open>True\<close> and every row with the id holds the clock of this call
  as \<open>fim\<close> and the hours from \<open>inicio\<close> to it.
\<close>

theorem finalizar_atividade_overwrites:
  assumes "finalizar_atividade i sc e1 rows = Inr (b, rows1)"
  shows "finalizar_atividade i sc e2 rows1 = finalizar_atividade i sc e2 rows \<and>
    (responds_all sc e2 \<longrightarrow>
       (\<exists>rows2. finalizar_atividade i sc e2 rows1 = Inr (True, rows2) \<and>
          (\<forall>r \<in> set rows2. ativ_id r = i \<longrightarrow>
             fim r = Some (ce_now e2) \<and>
             (\<exists>a \<in> set rows. horas_trabalhadas r =
                 calcular_horas_trabalhadas (inicio a) (Some (ce_now e2))))))"
proof -
  from finalizar_atividade_Inr[OF assms] obtain a as where
    f: "filter (\<lambda>r. ativ_id r = i) rows = a # as" and
    r1: "rows1 = map (close_row i (ce_now e1)
        (calcular_horas_trabalhadas (inicio a) (Some (ce_now e1)))) rows"
    by blast
  let ?c1 = "close_row i (ce_now e1) (calcular_horas_trabalhadas (inicio a) (Some (ce_now e1)))"
  let ?c2 = "close_row i (ce_now e2) (calcular_horas_trabalhadas (inicio a) (Some (ce_now e2)))"
  have f1: "filter (\<lambda>r. ativ_id r = i) rows1 = ?c1 a # map ?c1 as"
    by (simp add: r1 filter_id_close_row f)
  have "a \<in> set (filter (\<lambda>r. ativ_id r = i) rows)"
    by (simp add: f)
  then have a_in: "a \<in> set rows"
    by simp
  show ?thesis
  proof (cases "responds_all sc e2")
    case True
    have "finalizar_atividade i sc e2 rows1 =
        Inr (True, map (close_row i (ce_now e2)
          (calcular_horas_trabalhadas (inicio (?c1 a)) (Some (ce_now e2)))) rows1)"
      by (rule finalizar_atividade_responds[OF True f1])
    also have "\<dots> = Inr (True, map ?c2 rows)"
      by (simp add: inicio_close_row r1 close_row_twice comp_def)
    finally have s1: "finalizar_atividade i sc e2 rows1 = Inr (True, map ?c2 rows)" .
    have s0: "finalizar_atividade i sc e2 rows = Inr (True, map ?c2 rows)"
      by (simp add: finalizar_atividade_responds[OF True f])
    have "\<forall>r \<in> set (map ?c2 rows). ativ_id r = i \<longrightarrow>
             fim r = Some (ce_now e2) \<and>
             horas_trabalhadas r = calcular_horas_trabalhadas (inicio a) (Some (ce_now e2))"
    proof (intro ballI impI)
      fix r assume "r \<in> set (map ?c2 rows)" and i: "ativ_id r = i"
      then obtain r0 where "r = ?c2 r0" by auto
      with i show "fim r = Some (ce_now e2) \<and>
             horas_trabalhadas r = calcular_horas_trabalhadas (inicio a) (Some (ce_now e2))"
        by (simp add: close_row_def split: if_splits)
    qed
    with a_in have "\<forall>r \<in> set (map ?c2 rows). ativ_id r = i \<longrightarrow>
             fim r = Some (ce_now e2) \<and>
             (\<exists>a \<in> set rows. horas_trabalhadas r =
                 calcular_horas_trabalhadas (inicio a) (Some (ce_now e2)))"
      by blast
    with s1 s0 show ?thesis by simp
  next
    case False
    then show ?thesis
      by (auto simp: finalizar_atividade_def responds_all_def client_or_new_cases
          execute_eq_id f f1 Let_def split: response.splits)
  qed
qed

text \<open>
  The example above as an instance: the first close goes through, and the second
  close of the closed row gives what a close of the open row at that time gives.
\<close>

theorem finalizar_atividade_overwrites_witness:
  "finalizar_atividade 42 None (ex_close 3600000000) [ex_row 42 ''ana'' 0] =
     Inr (True, [(ex_row 42 ''ana'' 0)\<lparr>fim := Some 3600000000,
                                       horas_trabalhadas := Some 1\<rparr>]) \<and>
   finalizar_atividade 42 None (ex_close 9000000000)
       [(ex_row 42 ''ana'' 0)\<lparr>fim := Some 3600000000, horas_trabalhadas := Some 1\<rparr>] =
   finalizar_atividade 42 None (ex_close 9000000000) [ex_row 42 ''ana'' 0]"
proof -
  have h: "finalizar_atividade 42 None (ex_close 3600000000) [ex_row 42 ''ana'' 0] =
     Inr (True, [(ex_row 42 ''ana'' 0)\<lparr>fim := Some 3600000000,
                                       horas_trabalhadas := Some 1\<rparr>])"
    by (simp add: finalizar_atividade_def client_or_new_def get_supabase_client_def
      execute_eq_id ex_close_def ex_row_def close_row_def calcular_horas_trabalhadas_def
      total_seconds_def py_round_def round_half_even_def Let_def)
  from finalizar_atividade_overwrites[OF h, of "ex_close 9000000000"] h
  show ?thesis by blast
qed


subsection \<open>The sweep on shutdown\<close>

lemma swept_ids: "list_all2 (swept S) rows rows' \<Longrightarrow> map ativ_id rows' = map ativ_id rows"
  by (induction rule: list_all2_induct) (auto simp: swept_def split: if_splits)

lemma swept_refl: "list_all2 (swept {}) rows rows"
  by (simp add: list_all2_refl swept_def)

lemma swept_close_row: "list_all2 (swept {i}) rows (map (close_row i t h) rows)"
  by (induction rows) (auto simp: swept_def close_row_def)

lemma swept_trans:
  "list_all2 (swept S) xs ys \<Longrightarrow> list_all2 (swept T) ys zs \<Longrightarrow>
   list_all2 (swept (S \<union> T)) xs zs"
proof (induction arbitrary: zs rule: list_all2_induct)
  case Nil
  then show ?case by simp
next
  case (Cons x xs y ys)
  from Cons.prems obtain z zs' where
    z: "zs = z # zs'" "swept T y z" "list_all2 (swept T) ys zs'"
    by (auto simp: list_all2_Cons1)
  have "swept (S \<union> T) x z"
    using Cons.hyps(1) z(2) by (auto simp: swept_def split: if_splits)
  with Cons.IH[OF z(3)] z(1) show ?case by simp
qed

lemma swept_abertas:
  "list_all2 (swept S) rows rows' \<Longrightarrow>
   abertas rows' = filter (\<lambda>r. fim r = None \<and> ativ_id r \<notin> S) rows"
  by (induction rule: list_all2_induct) (auto simp: swept_def abertas_def split: if_splits)

lemma finalizar_lote_swept:
  assumes "set ids \<subseteq> ativ_id ` set rows"
  shows "\<exists>rows'. finalizar_lote envs c ids n rows =
           (n + int (length (filter (\<lambda>i. responds_all (Some c) (envs i)) ids)), rows') \<and>
         list_all2 (swept {i \<in> set ids. responds_all (Some c) (envs i)}) rows rows'"
  using assms
proof (induction ids arbitrary: n rows)
  case Nil
  then show ?case by (simp add: swept_refl)
next
  case (Cons i ids)
  show ?case
  proof (cases "responds_all (Some c) (envs i)")
    case False
    then obtain e where "finalizar_atividade i (Some c) (envs i) rows = Inl e"
      using finalizar_atividade_fails by blast
    moreover have "{j \<in> set (i # ids). responds_all (Some c) (envs j)} =
        {j \<in> set ids. responds_all (Some c) (envs j)}"
      using False by auto
    ultimately show ?thesis
      using Cons.IH[of rows n] Cons.prems False by simp
  next
    case True
    from Cons.prems have "filter (\<lambda>r. ativ_id r = i) rows \<noteq> []"
      by (intro filter_id_nonempty) simp
    then obtain a as where f: "filter (\<lambda>r. ativ_id r = i) rows = a # as"
      by (cases "filter (\<lambda>r. ativ_id r = i) rows") auto
    define rows1 where "rows1 = map (close_row i (ce_now (envs i))
        (calcular_horas_trabalhadas (inicio a) (Some (ce_now (envs i))))) rows"
    have step: "finalizar_atividade i (Some c) (envs i) rows = Inr (True, rows1)"
      unfolding rows1_def by (rule finalizar_atividade_responds[OF True f])
    have sw1: "list_all2 (swept {i}) rows rows1"
      unfolding rows1_def by (rule swept_close_row)
    have ids1: "map ativ_id rows1 = map ativ_id rows"
      using sw1 by (rule swept_ids)
    then have "ativ_id ` set rows1 = ativ_id ` set rows"
      by (metis set_map)
    with Cons.prems have "set ids \<subseteq> ativ_id ` set rows1" by simp
    from Cons.IH[OF this, of "n + 1"] obtain rows' where
      r: "finalizar_lote envs c ids (n + 1) rows1 =
           (n + 1 + int (length (filter (\<lambda>i. responds_all (Some c) (envs i)) ids)), rows')"
      and sw2: "list_all2 (swept {i \<in> set ids. responds_all (Some c) (envs i)}) rows1 rows'"
      by blast
    have "{j \<in> set (i # ids). responds_all (Some c) (envs j)} =
        {i} \<union> {j \<in> set ids. responds_all (Some c) (envs j)}"
      using True by auto
    with swept_trans[OF sw1 sw2] step r True show ?thesis by simp
  qed
qed

lemma sweep_listed:
  assumes "supabase_client \<noteq> None \<or> sw_configured env" and "sw_list env = Responds"
  shows "fst (finalizar_atividades_em_andamento supabase_client env rows) =
           int (length (filter (\<lambda>r. responds_all (Some Client) (sw_close env (ativ_id r)))
                  (abertas rows)))"
    and "abertas (snd (finalizar_atividades_em_andamento supabase_client env rows)) =
           filter (\<lambda>r. \<not> responds_all (Some Client) (sw_close env (ativ_id r))) (abertas rows)"
proof -
  let ?ids = "map ativ_id (abertas rows)"
  have run: "finalizar_atividades_em_andamento supabase_client env rows =
      finalizar_lote (sw_close env) Client ?ids 0 rows"
    using assms
    by (simp add: finalizar_atividades_em_andamento_def client_or_new_cases execute_is_fim_null)
  have "set ?ids \<subseteq> ativ_id ` set rows"
    by (auto simp: abertas_def)
  from finalizar_lote_swept[OF this, of "sw_close env" Client 0] obtain rows' where
    r: "finalizar_lote (sw_close env) Client ?ids 0 rows =
         (int (length (filter (\<lambda>i. responds_all (Some Client) (sw_close env i)) ?ids)), rows')"
    and sw: "list_all2 (swept {i \<in> set ?ids. responds_all (Some Client) (sw_close env i)}) rows rows'"
    by auto
  show "fst (finalizar_atividades_em_andamento supabase_client env rows) =
           int (length (filter (\<lambda>r. responds_all (Some Client) (sw_close env (ativ_id r)))
                  (abertas rows)))"
    by (simp add: run r comp_def)
  have "abertas rows' = filter (\<lambda>r. fim r = None \<and>
      ativ_id r \<notin> {i \<in> set ?ids. responds_all (Some Client) (sw_close env i)}) rows"
    using sw by (rule swept_abertas)
  also have "\<dots> = filter (\<lambda>r. \<not> responds_all (Some Client) (sw_close env (ativ_id r)))
      (abertas rows)"
    unfolding abertas_def filter_filter
    by (rule filter_cong) (auto simp: abertas_def)
  finally show "abertas (snd (finalizar_atividades_em_andamento supabase_client env rows)) =
           filter (\<lambda>r. \<not> responds_all (Some Client) (sw_close env (ativ_id r))) (abertas rows)"
    by (simp add: run r)
qed

lemma sweep_not_listed:
  assumes "\<not> ((supabase_client \<noteq> None \<or> sw_configured env) \<and> sw_list env = Responds)"
  shows "finalizar_atividades_em_andamento supabase_client env rows = (0, rows)"
  using assms
  by (auto simp: finalizar_atividades_em_andamento_def client_or_new_cases split: response.splits)

text \<open>
  Claim C5: the number that \<open>finalizar_atividades_em_andamento\<close> returns is the
  number of activities that were open before the sweep and are closed after it. When
  the open activities could be listed, those are the open activities whose close
  went through; the ones whose close failed are still open and unchanged, wherever
  they stand in the list, so a failure does not stop the sweep.
\<close>

theorem finalizar_atividades_em_andamento_count:
  "fst (finalizar_atividades_em_andamento supabase_client env rows) =
     int (length (abertas rows)) -
     int (length (abertas (snd (finalizar_atividades_em_andamento supabase_client env rows)))) \<and>
   ((supabase_client \<noteq> None \<or> sw_configured env) \<and> sw_list env = Responds \<longrightarrow>
      fst (finalizar_atividades_em_andamento supabase_client env rows) =
        int (length (filter (\<lambda>r. responds_all (Some Client) (sw_close env (ativ_id r)))
               (abertas rows))) \<and>
      abertas (snd (finalizar_atividades_em_andamento supabase_client env rows)) =
        filter (\<lambda>r. \<not> responds_all (Some Client) (sw_close env (ativ_id r))) (abertas rows))"
proof (cases "(supabase_client \<noteq> None \<or> sw_configured env) \<and> sw_list env = Responds")
  case True
  then have c: "supabase_client \<noteq> None \<or> sw_configured env" and l: "sw_list env = Responds"
    by blast+
  let ?P = "\<lambda>r. responds_all (Some Client) (sw_close env (ativ_id r))"
  have "length (filter ?P (abertas rows)) + length (filter (\<lambda>r. \<not> ?P r) (abertas rows)) =
      length (abertas rows)"
    by (rule sum_length_filter_compl)
  then have "int (length (filter ?P (abertas rows))) =
      int (length (abertas rows)) - int (length (filter (\<lambda>r. \<not> ?P r) (abertas rows)))"
    by linarith
  then show ?thesis
    using True by (simp add: sweep_listed[OF c l])
next
  case False
  have "finalizar_atividades_em_andamento supabase_client env rows = (0, rows)"
    by (rule sweep_not_listed[OF False])
  with False show ?thesis
    by auto
qed

text \<open>
  The scenario of the specification: activities 10 and 11 are open. The sweep
  returns 2 when both closes go through, and 1 when the close of 11 fails, with 11
  left open.
\<close>

theorem finalizar_atividades_em_andamento_count_witness:
  "fst (finalizar_atividades_em_andamento None ex_sweep_all
          [ex_row 10 ''ana'' 0, ex_row 11 ''ana'' 3600000000]) = 2 \<and>
   fst (finalizar_atividades_em_andamento None ex_sweep_11_fails
          [ex_row 10 ''ana'' 0, ex_row 11 ''ana'' 3600000000]) = 1 \<and>
   abertas (snd (finalizar_atividades_em_andamento None ex_sweep_11_fails
          [ex_row 10 ''ana'' 0, ex_row 11 ''ana'' 3600000000])) =
     [ex_row 11 ''ana'' 3600000000]"
  using finalizar_atividades_em_andamento_count[of None ex_sweep_all
          "[ex_row 10 ''ana'' 0, ex_row 11 ''ana'' 3600000000]"]
        finalizar_atividades_em_andamento_count[of None ex_sweep_11_fails
          "[ex_row 10 ''ana'' 0, ex_row 11 ''ana'' 3600000000]"]
  by (simp add: ex_sweep_all_def ex_sweep_11_fails_def ex_close_def ex_close_refused_def
      responds_all_def abertas_def ex_row_def)



subsection \<open>Starting and stopping from the screen\<close>

lemma iniciar_fails:
  "insert_fails env \<Longrightarrow> \<exists>e. iniciar_nova_atividade tipo descr uid None env rows = Inl e"
  by (auto simp: insert_fails_def iniciar_nova_atividade_def client_or_new_def
      get_supabase_client_def Let_def split: insert_response.splits)

text \<open>
  Claim C6: when the insert of \<open>acao_iniciar\<close> fails (no client can be built, the
  answer has its error set, or the client raises), the whole state is as before:
  \<open>current_activity_id\<close>, the selection, every widget and the table. The only
  output is one error popup, and with a type selected it is the popup
  \<open>Falha ao iniciar atividade\<close> that carries the exception.
\<close>

theorem acao_iniciar_store_failure:
  assumes "insert_fails env"
  shows "snd (acao_iniciar env sys) = sys \<and>
     (\<exists>m. fst (acao_iniciar env sys) = [Erro m]) \<and>
     (truthy_str (selected_activity_type (tela sys)) \<longrightarrow>
        (\<exists>e. fst (acao_iniciar env sys) = [Erro (Falha_ao_iniciar e)]))"
proof (cases "truthy_str (selected_activity_type (tela sys))")
  case False
  then have "acao_iniciar env sys = ([Erro Selecione_um_tipo], sys)"
    by (auto simp: acao_iniciar_def truthy_str_def split: option.splits)
  with False show ?thesis by simp
next
  case True
  then obtain tipo where t: "selected_activity_type (tela sys) = Some tipo" "tipo \<noteq> []"
    by (auto simp: truthy_str_def split: option.splits)
  from iniciar_fails[OF assms] obtain e where
    "iniciar_nova_atividade tipo (descricao_text (tela sys)) (app_user_id sys) None env
       (atividades sys) = Inl e"
    by blast
  with t have "acao_iniciar env sys = ([Erro (Falha_ao_iniciar e)], sys)"
    by (simp add: acao_iniciar_def Let_def)
  then show ?thesis by simp
qed

text \<open>
  An instance: the idle example screen and an insert that the store refuses.
\<close>

theorem acao_iniciar_store_failure_witness:
  "insert_fails ex_start_refused \<and>
   acao_iniciar ex_start_refused ex_idle =
     ([Erro (Falha_ao_iniciar Supabase_insert_error)], ex_idle) \<and>
   current_activity_id (tela ex_idle) = None"
  using acao_iniciar_store_failure[of ex_start_refused ex_idle]
  by (simp add: insert_fails_def ex_start_refused_def acao_iniciar_def ex_idle_def
      on_activity_toggled_def main_screen_init_def ex_widgets_def
      iniciar_nova_atividade_def client_or_new_def get_supabase_client_def Let_def)

lemma set_state_start_disabled:
  "start_button_disabled (set_state_em_andamento b s) = b"
  by (simp add: set_state_em_andamento_def)

text \<open>
  Claim C2, amended: \<open>acao_finalizar\<close> with no running activity
  (\<open>current_activity_id\<close> is \<open>None\<close> or \<open>0\<close>) shows the error popup and leaves the
  whole state unchanged. \<open>acao_iniciar\<close> has no such test: its popups and the rows
  it leaves in the table are the same whatever \<open>current_activity_id\<close> holds. What
  keeps a start from happening while an activity runs is the start button, which
  every start that goes through leaves disabled.
\<close>

theorem acao_finalizar_idle_rejected:
  "(\<not> truthy_id (current_activity_id (tela sys)) \<longrightarrow>
      acao_finalizar cenv sys = ([Erro Sem_atividade_em_andamento], sys)) \<and>
   (\<forall>sys'. acao_iniciar senv sys = ([], sys') \<longrightarrow> start_button_disabled (tela sys')) \<and>
   fst (acao_iniciar senv (sys\<lparr>tela := (tela sys)\<lparr>current_activity_id := x\<rparr>\<rparr>)) =
     fst (acao_iniciar senv sys) \<and>
   atividades (snd (acao_iniciar senv (sys\<lparr>tela := (tela sys)\<lparr>current_activity_id := x\<rparr>\<rparr>))) =
     atividades (snd (acao_iniciar senv sys))"
proof (intro conjI allI impI)
  assume "\<not> truthy_id (current_activity_id (tela sys))"
  then show "acao_finalizar cenv sys = ([Erro Sem_atividade_em_andamento], sys)"
    by (auto simp: acao_finalizar_def truthy_id_def split: option.splits)
next
  fix sys' assume "acao_iniciar senv sys = ([], sys')"
  then show "start_button_disabled (tela sys')"
    by (auto simp: acao_iniciar_def Let_def set_state_start_disabled
        split: option.splits if_splits sum.splits)
next
  show "fst (acao_iniciar senv (sys\<lparr>tela := (tela sys)\<lparr>current_activity_id := x\<rparr>\<rparr>)) =
     fst (acao_iniciar senv sys)"
    by (simp add: acao_iniciar_def Let_def split: option.splits sum.splits)
next
  show "atividades (snd (acao_iniciar senv
            (sys\<lparr>tela := (tela sys)\<lparr>current_activity_id := x\<rparr>\<rparr>))) =
     atividades (snd (acao_iniciar senv sys))"
    by (simp add: acao_iniciar_def Let_def split: option.splits sum.splits)
qed

text \<open>
  An instance: the idle example screen rejects a stop, and a start on it goes
  through and disables the start button.
\<close>

theorem acao_finalizar_idle_rejected_witness:
  "\<not> truthy_id (current_activity_id (tela ex_idle)) \<and>
   acao_finalizar (ex_close 0) ex_idle = ([Erro Sem_atividade_em_andamento], ex_idle) \<and>
   fst (acao_iniciar ex_start ex_idle) = [] \<and>
   start_button_disabled (tela (snd (acao_iniciar ex_start ex_idle)))"
proof -
  have a0: "fst (acao_iniciar ex_start ex_idle) = []"
    by (simp add: ex_start_def acao_iniciar_def ex_idle_def
      on_activity_toggled_def main_screen_init_def ex_widgets_def
      iniciar_nova_atividade_def client_or_new_def get_supabase_client_def Let_def)
  then have a: "acao_iniciar ex_start ex_idle = ([], snd (acao_iniciar ex_start ex_idle))"
    by (metis prod.collapse)
  have b: "\<not> truthy_id (current_activity_id (tela ex_idle))"
    by (simp add: truthy_id_def ex_idle_def on_activity_toggled_def main_screen_init_def
        ex_widgets_def)
  from acao_finalizar_idle_rejected[of ex_idle "ex_close 0" ex_start] a a0 b
  show ?thesis by blast
qed

text \<open>
  Claim C2, as stated, asks that \<open>acao_iniciar\<close> is rejected while an activity is
  running and changes nothing. On the example screen after a first start
  (\<open>current_activity_id\<close> is 1), a second call shows no error, inserts a second row
  and sets \<open>current_activity_id\<close> to 2.
\<close>

theorem acao_iniciar_while_active_example:
  "current_activity_id (tela (snd (acao_iniciar ex_start ex_idle))) = Some 1 \<and>
   fst (acao_iniciar ex_start (snd (acao_iniciar ex_start ex_idle))) = [] \<and>
   current_activity_id (tela (snd (acao_iniciar ex_start (snd (acao_iniciar ex_start ex_idle)))))
     = Some 2 \<and>
   map ativ_id (atividades (snd (acao_iniciar ex_start (snd (acao_iniciar ex_start ex_idle)))))
     = [1, 2] \<and>
   snd (acao_iniciar ex_start (snd (acao_iniciar ex_start ex_idle))) \<noteq>
     snd (acao_iniciar ex_start ex_idle)"
proof -
  have 1: "snd (acao_iniciar ex_start ex_idle) =
    ex_idle\<lparr>tela := set_state_em_andamento True (show_active_box (Some ''Cadastro'')
       ((tela ex_idle)\<lparr>current_activity_id := Some 1, status_label := Em_andamento ''Cadastro''\<rparr>)),
       atividades := [\<lparr>ativ_id = 1, tipo_atividade = ''Cadastro'',
                          descricao = [], inicio = 0,
                          fim = None, user_id = ''ana'', ano = 2025,
                          mes = 1, dia = 6,
                          horas_trabalhadas = None\<rparr>]\<rparr>"
    by (simp add: ex_start_def acao_iniciar_def ex_idle_def ex_now_def
      on_activity_toggled_def main_screen_init_def ex_widgets_def next_id_def
      iniciar_nova_atividade_def client_or_new_def get_supabase_client_def Let_def)
  show ?thesis
    unfolding 1
    by (simp add: ex_start_def acao_iniciar_def ex_idle_def ex_now_def
      on_activity_toggled_def main_screen_init_def ex_widgets_def next_id_def
      set_state_em_andamento_def show_active_box_def
      iniciar_nova_atividade_def client_or_new_def get_supabase_client_def Let_def)
qed


subsection \<open>The scheduler fires once per day and checkpoint\<close>

lemma last_date_set_state [simp]:
  "auto_finalize_last_date (set_state_em_andamento b s) = auto_finalize_last_date s"
  by (simp add: set_state_em_andamento_def)

lemma last_date_show_active_box [simp]:
  "auto_finalize_last_date (show_active_box t s) = auto_finalize_last_date s"
  by (simp add: show_active_box_def split: option.splits)

lemma last_date_on_activity_toggled [simp]:
  "auto_finalize_last_date (on_activity_toggled b d a s) = auto_finalize_last_date s"
  by (simp add: on_activity_toggled_def)

lemma last_date_reset_local [simp]:
  "auto_finalize_last_date (reset_local s) = auto_finalize_last_date s"
  by (simp add: reset_local_def Let_def split: option.splits)

lemma last_date_acao_iniciar:
  "auto_finalize_last_date (tela (snd (acao_iniciar env sys))) = auto_finalize_last_date (tela sys)"
  by (simp add: acao_iniciar_def Let_def split: option.splits sum.splits prod.splits)

lemma last_date_acao_finalizar:
  "auto_finalize_last_date (tela (snd (acao_finalizar env sys))) = auto_finalize_last_date (tela sys)"
  by (simp add: acao_finalizar_def Let_def split: option.splits sum.splits prod.splits)

lemma last_date_check:
  "auto_finalize_last_date (tela (auto_finalize_check now sys)) =
     (if strftime_HM now \<in> set targets
      then (auto_finalize_last_date (tela sys))(strftime_HM now := Some (date_of now))
      else auto_finalize_last_date (tela sys))"
  by (auto simp: auto_finalize_check_def Let_def split: option.splits)

lemma tela_run_worker: "tela (run_worker job env sys) = tela sys"
  by (simp add: run_worker_def split: prod.splits)

lemma last_date_run_callback [simp]:
  "auto_finalize_last_date (snd (run_callback cb s)) = auto_finalize_last_date s"
  by (simp add: run_callback_def on_auto_finalized_success_def split: ui_callback.splits)

lemma last_date_run_next_callback:
  "auto_finalize_last_date (tela (snd (run_next_callback sys))) =
   auto_finalize_last_date (tela sys)"
proof (cases "callbacks sys")
  case Nil
  then show ?thesis by (simp add: run_next_callback_def)
next
  case (Cons cb cbs)
  obtain popups s' where r: "run_callback cb (tela sys) = (popups, s')"
    by (cases "run_callback cb (tela sys)")
  then have "auto_finalize_last_date s' = auto_finalize_last_date (tela sys)"
    by (metis last_date_run_callback snd_conv)
  with Cons r show ?thesis by (simp add: run_next_callback_def)
qed

lemma check_silent:
  "strftime_HM now \<notin> set targets \<or>
   auto_finalize_last_date (tela sys) (strftime_HM now) = Some (date_of now) \<Longrightarrow>
   auto_finalize_check now sys = sys"
  by (auto simp: auto_finalize_check_def Let_def)

lemma fired_passo:
  assumes "auto_finalize_last_date (tela sys) l = Some d"
    and "\<forall>d' \<in> set (tick_dates [e]). d' = d"
  shows "auto_finalize_last_date (tela (passo sys e)) l = Some d"
proof (cases e)
  case (Toggle inst down activity_type)
  with assms(1) show ?thesis by simp
next
  case (Iniciar env)
  with assms(1) show ?thesis by (simp add: last_date_acao_iniciar)
next
  case (Finalizar env)
  with assms(1) show ?thesis by (simp add: last_date_acao_finalizar)
next
  case (Tick now)
  with assms show ?thesis by (simp add: last_date_check)
next
  case (Worker job env)
  with assms(1) show ?thesis by (simp add: tela_run_worker)
next
  case Callback
  with assms(1) show ?thesis by (simp add: last_date_run_next_callback)
qed

lemma tick_dates_Cons: "set (tick_dates (e # es)) = set (tick_dates [e]) \<union> set (tick_dates es)"
  by (cases e) simp_all

lemma fired_executar:
  assumes "auto_finalize_last_date (tela sys) l = Some d"
    and "\<forall>d' \<in> set (tick_dates es). d' = d"
  shows "auto_finalize_last_date (tela (executar sys es)) l = Some d"
  using assms
proof (induction es arbitrary: sys)
  case Nil
  then show ?case by simp
next
  case (Cons e es)
  from Cons.prems(2) have e: "\<forall>d' \<in> set (tick_dates [e]). d' = d"
    and es: "\<forall>d' \<in> set (tick_dates es). d' = d"
    by (simp_all add: tick_dates_Cons[of e es])
  from fired_passo[OF Cons.prems(1) e]
  have "auto_finalize_last_date (tela (passo sys e)) l = Some d" .
  from Cons.IH[OF this es] show ?case by simp
qed

text \<open>
  Claim C3: take a tick at some clock reading, then any run of starts, stops, worker
  threads finishing (well or badly, early or late), callbacks and further ticks of
  the same date, then a tick whose clock reads the same minute of the same date. The
  last tick changes nothing: it starts no worker thread. And a tick at a checkpoint
  leaves the date of the tick in \<open>_auto_finalize_last_date\<close> for that checkpoint,
  whether or not an activity is running; the write is part of the tick itself, before
  any worker runs.
\<close>

theorem auto_finalize_once_per_day:
  assumes "strftime_HM now2 = strftime_HM now1" and "date_of now2 = date_of now1"
    and "\<forall>d \<in> set (tick_dates es). d = date_of now1"
  shows "auto_finalize_check now2 (executar (auto_finalize_check now1 sys) es) =
       executar (auto_finalize_check now1 sys) es \<and>
     threads (auto_finalize_check now2 (executar (auto_finalize_check now1 sys) es)) =
       threads (executar (auto_finalize_check now1 sys) es) \<and>
     (strftime_HM now1 \<in> set targets \<longrightarrow>
        auto_finalize_last_date (tela (auto_finalize_check now1 sys)) (strftime_HM now1)
          = Some (date_of now1))"
proof (cases "strftime_HM now1 \<in> set targets")
  case False
  with assms(1) show ?thesis by (simp add: check_silent)
next
  case True
  have first: "auto_finalize_last_date (tela (auto_finalize_check now1 sys))
      (strftime_HM now1) = Some (date_of now1)"
    using True by (simp add: last_date_check)
  from fired_executar[OF this assms(3)]
  have "auto_finalize_last_date
      (tela (executar (auto_finalize_check now1 sys) es)) (strftime_HM now2)
      = Some (date_of now2)"
    by (simp add: assms(1,2))
  then have "auto_finalize_check now2 (executar (auto_finalize_check now1 sys) es) =
       executar (auto_finalize_check now1 sys) es"
    by (simp add: check_silent)
  with first show ?thesis by simp
qed

subsection \<open>At most one open activity per screen\<close>

lemma foldr_max_upper: "i \<in> set xs \<Longrightarrow> i \<le> foldr max xs (0::int)"
  by (induction xs) auto

lemma next_id_fresh: "next_id rows \<notin> set (map ativ_id rows)"
proof
  assume "next_id rows \<in> set (map ativ_id rows)"
  then have "next_id rows \<le> foldr max (map ativ_id rows) 0"
    by (rule foldr_max_upper)
  then show False by (simp add: next_id_def)
qed

lemma acao_iniciar_threads:
  "threads (snd (acao_iniciar env sys)) = threads sys \<and>
   callbacks (snd (acao_iniciar env sys)) = callbacks sys"
  by (simp add: acao_iniciar_def Let_def split: option.splits sum.splits prod.splits)

lemma acao_iniciar_cases:
  "snd (acao_iniciar env sys) = sys \<or>
   (\<exists>new. atividades (snd (acao_iniciar env sys)) = atividades sys @ [new] \<and>
      fim new = None \<and> ativ_id new = next_id (atividades sys) \<and>
      start_button_disabled (tela (snd (acao_iniciar env sys))) \<and>
      (current_activity_id (tela (snd (acao_iniciar env sys))) = Some (ativ_id new) \<or>
       current_activity_id (tela (snd (acao_iniciar env sys))) = None))"
  by (auto simp: acao_iniciar_def iniciar_nova_atividade_def Let_def
      set_state_em_andamento_def show_active_box_def
      split: option.splits sum.splits insert_response.splits)

lemma acao_finalizar_stop_like: "stop_like sys (snd (acao_finalizar env sys))"
proof (cases "truthy_id (current_activity_id (tela sys))")
  case False
  then show ?thesis
    by (auto simp: stop_like_def acao_finalizar_def truthy_id_def split: option.splits)
next
  case True
  then obtain i where i: "current_activity_id (tela sys) = Some i" "i \<noteq> 0"
    by (auto simp: truthy_id_def split: option.splits)
  show ?thesis
  proof (cases "finalizar_atividade i None env (atividades sys)")
    case (Inl e)
    with i show ?thesis by (simp add: stop_like_def acao_finalizar_def)
  next
    case (Inr p)
    then obtain b rows' where p: "finalizar_atividade i None env (atividades sys) = Inr (b, rows')"
      by (cases p) auto
    from finalizar_atividade_Inr[OF p] obtain t h where
      "rows' = map (close_row i t h) (atividades sys)" by blast
    with i p show ?thesis by (auto simp: stop_like_def acao_finalizar_def)
  qed
qed

lemma check_frame:
  "atividades (auto_finalize_check now sys) = atividades sys \<and>
   callbacks (auto_finalize_check now sys) = callbacks sys \<and>
   current_activity_id (tela (auto_finalize_check now sys)) = current_activity_id (tela sys) \<and>
   start_button_disabled (tela (auto_finalize_check now sys)) = start_button_disabled (tela sys)"
  by (simp add: auto_finalize_check_def Let_def split: option.splits)

lemma check_threads:
  "job \<in> set (threads (auto_finalize_check now sys)) \<Longrightarrow>
   job \<in> set (threads sys) \<or>
   (current_activity_id (tela sys) = Some (fst job) \<and> fst job \<noteq> 0)"
  by (auto simp: auto_finalize_check_def Let_def split: option.splits if_splits)

lemma abertas_close_row:
  "abertas (map (close_row i t h) rows) = filter (\<lambda>r. ativ_id r \<noteq> i) (abertas rows)"
  by (induction rows) (auto simp: abertas_def close_row_def)

lemma ids_close_row: "map ativ_id (map (close_row i t h) rows) = map ativ_id rows"
  by (induction rows) (auto simp: close_row_def)

lemma criadas_abertas_close_row:
  "criadas_abertas rows0 (map (close_row i t h) rows) =
   filter (\<lambda>r. ativ_id r \<noteq> i) (criadas_abertas rows0 rows)"
  by (simp add: criadas_abertas_def abertas_close_row conj_commute)

lemma uma_aberta_none:
  assumes "set (map ativ_id rows0) \<subseteq> set (map ativ_id (atividades sys))"
    and "criadas_abertas rows0 (atividades sys) = []"
  shows "uma_aberta rows0 sys"
  using assms by (simp add: uma_aberta_def)

lemma uma_aberta_closed:
  assumes "uma_aberta rows0 sys"
    and "\<forall>r \<in> set (criadas_abertas rows0 (atividades sys)). ativ_id r = i"
    and "atividades sys' = map (close_row i t h) (atividades sys)"
  shows "uma_aberta rows0 sys'"
proof (rule uma_aberta_none)
  show "set (map ativ_id rows0) \<subseteq> set (map ativ_id (atividades sys'))"
    using assms(1) unfolding assms(3) ids_close_row by (simp add: uma_aberta_def)
  show "criadas_abertas rows0 (atividades sys') = []"
    using assms(2) by (simp add: assms(3) criadas_abertas_close_row filter_empty_conv)
qed

lemma uma_aberta_stop_like:
  assumes "uma_aberta rows0 sys" and "stop_like sys sys'"
  shows "uma_aberta rows0 sys'"
proof -
  from assms(2) have th: "threads sys' = threads sys" "callbacks sys' = callbacks sys"
    by (simp_all add: stop_like_def)
  from assms(2) consider
    (same) "atividades sys' = atividades sys"
       "current_activity_id (tela sys') = current_activity_id (tela sys)"
       "start_button_disabled (tela sys') = start_button_disabled (tela sys)"
  | (closed) i t h where "current_activity_id (tela sys) = Some i" "i \<noteq> 0"
       "atividades sys' = map (close_row i t h) (atividades sys)"
    unfolding stop_like_def by blast
  then show ?thesis
  proof cases
    case same
    with assms(1) th show ?thesis by (simp add: uma_aberta_def)
  next
    case closed
    have tr: "truthy_id (current_activity_id (tela sys))"
      using closed(1,2) by (simp add: truthy_id_def)
    from assms(1) tr closed(1) have
      "\<forall>r \<in> set (criadas_abertas rows0 (atividades sys)). ativ_id r = i"
      by (auto simp: uma_aberta_def)
    from uma_aberta_closed[OF assms(1) this closed(3)] show ?thesis .
  qed
qed

lemma uma_aberta_iniciar:
  assumes "uma_aberta rows0 sys" and "\<not> start_button_disabled (tela sys)"
    and "threads sys = []" and "callbacks sys = []"
  shows "uma_aberta rows0 (snd (acao_iniciar env sys))"
proof -
  let ?sys' = "snd (acao_iniciar env sys)"
  from assms(1,2) have none: "criadas_abertas rows0 (atividades sys) = []"
    by (auto simp: uma_aberta_def)
  from assms(1) have sub: "set (map ativ_id rows0) \<subseteq> set (map ativ_id (atividades sys))"
    by (simp add: uma_aberta_def)
  have th: "threads ?sys' = []" "callbacks ?sys' = []"
    using acao_iniciar_threads[of env sys] assms(3,4) by simp_all
  from acao_iniciar_cases[of env sys] consider
    (same) "?sys' = sys"
  | (new) new where "atividades ?sys' = atividades sys @ [new]" "fim new = None"
      "ativ_id new = next_id (atividades sys)" "start_button_disabled (tela ?sys')"
      "current_activity_id (tela ?sys') = Some (ativ_id new) \<or>
       current_activity_id (tela ?sys') = None"
    by blast
  then show ?thesis
  proof cases
    case same
    with assms(1) show ?thesis by simp
  next
    case new
    have "ativ_id new \<notin> set (map ativ_id rows0)"
      using next_id_fresh[of "atividades sys"] sub new(3) by auto
    then have c: "criadas_abertas rows0 (atividades ?sys') = [new]"
      using none new(1,2) by (simp add: criadas_abertas_def abertas_def)
    have "set (map ativ_id rows0) \<subseteq> set (map ativ_id (atividades ?sys'))"
      using sub new(1) by auto
    with c new(4,5) th show ?thesis
      by (auto simp: uma_aberta_def truthy_id_def success_waiting_def)
  qed
qed

lemma uma_aberta_tick:
  assumes "uma_aberta rows0 sys"
  shows "uma_aberta rows0 (auto_finalize_check now sys)"
proof -
  let ?sys' = "auto_finalize_check now sys"
  note fr = check_frame[of now sys]
  have jobs: "\<forall>r \<in> set (criadas_abertas rows0 (atividades sys)).
      \<forall>job \<in> set (threads ?sys'). fst job = ativ_id r"
  proof (intro ballI)
    fix r job
    assume r: "r \<in> set (criadas_abertas rows0 (atividades sys))"
      and job: "job \<in> set (threads ?sys')"
    from check_threads[OF job] show "fst job = ativ_id r"
    proof
      assume "job \<in> set (threads sys)"
      with assms r show ?thesis by (auto simp: uma_aberta_def)
    next
      assume c: "current_activity_id (tela sys) = Some (fst job) \<and> fst job \<noteq> 0"
      then have "truthy_id (current_activity_id (tela sys))" by (simp add: truthy_id_def)
      with assms r have "current_activity_id (tela sys) = Some (ativ_id r)"
        by (auto simp: uma_aberta_def)
      with c show ?thesis by simp
    qed
  qed
  with assms fr show ?thesis by (simp add: uma_aberta_def)
qed

lemma success_waiting_snoc_error:
  "success_waiting (cbs @ [Cb_show_error e]) = success_waiting cbs"
  by (auto simp: success_waiting_def)

lemma uma_aberta_worker:
  assumes "uma_aberta rows0 sys"
  shows "uma_aberta rows0 (run_worker job env sys)"
proof (cases "job \<in> set (threads sys)")
  case False
  with assms show ?thesis by (simp add: run_worker_def)
next
  case True
  show ?thesis
  proof (cases "finalizar_atividade (fst job) None env (atividades sys)")
    case (Inl e)
    then have eq: "run_worker job env sys =
        sys\<lparr>atividades := atividades sys, threads := remove1 job (threads sys),
            callbacks := callbacks sys @ [Cb_show_error e]\<rparr>"
      using True by (simp add: run_worker_def worker_finalize_def)
    have "set (remove1 job (threads sys)) \<subseteq> set (threads sys)"
      by (rule set_remove1_subset)
    then have "\<And>j. j \<in> set (remove1 job (threads sys)) \<Longrightarrow> j \<in> set (threads sys)"
      by blast
    with assms show ?thesis
      unfolding eq by (simp add: uma_aberta_def success_waiting_snoc_error)
  next
    case (Inr p)
    then obtain b rows' where p:
      "finalizar_atividade (fst job) None env (atividades sys) = Inr (b, rows')"
      by (cases p) auto
    from finalizar_atividade_Inr[OF p] obtain t h where
      r: "rows' = map (close_row (fst job) t h) (atividades sys)" by blast
    have a: "atividades (run_worker job env sys) =
        map (close_row (fst job) t h) (atividades sys)"
      using True p r by (simp add: run_worker_def worker_finalize_def)
    from assms True have
      "\<forall>r \<in> set (criadas_abertas rows0 (atividades sys)). ativ_id r = fst job"
      by (auto simp: uma_aberta_def)
    from uma_aberta_closed[OF assms this a] show ?thesis .
  qed
qed

lemma uma_aberta_callback:
  assumes "uma_aberta rows0 sys"
  shows "uma_aberta rows0 (snd (run_next_callback sys))"
proof (cases "callbacks sys")
  case Nil
  with assms show ?thesis by (simp add: run_next_callback_def)
next
  case (Cons cb cbs)
  show ?thesis
  proof (cases cb)
    case (Cb_show_error e)
    then have eq: "snd (run_next_callback sys) = sys\<lparr>tela := tela sys, callbacks := cbs\<rparr>"
      using Cons by (simp add: run_next_callback_def run_callback_def)
    have "success_waiting cbs \<Longrightarrow> success_waiting (callbacks sys)"
      by (auto simp: success_waiting_def Cons)
    with assms show ?thesis
      unfolding eq by (auto simp: uma_aberta_def)
  next
    case (Cb_auto_finalized_success time_str)
    then have "success_waiting (callbacks sys)"
      by (auto simp: success_waiting_def Cons)
    with assms have none: "criadas_abertas rows0 (atividades sys) = []"
      by (auto simp: uma_aberta_def)
    have a: "atividades (snd (run_next_callback sys)) = atividades sys"
      using Cons by (simp add: run_next_callback_def split: prod.splits)
    show ?thesis
      using assms none by (intro uma_aberta_none) (simp_all add: a uma_aberta_def)
  qed
qed

lemma uma_aberta_executar:
  assumes "uma_aberta rows0 sys" and "ui_permite sys es"
  shows "uma_aberta rows0 (executar sys es)"
  using assms
proof (induction es arbitrary: sys)
  case Nil
  then show ?case by simp
next
  case (Cons e es)
  have "uma_aberta rows0 (passo sys e)"
  proof (cases e)
    case (Toggle inst down activity_type)
    with Cons.prems(1) show ?thesis
      by (simp add: uma_aberta_def on_activity_toggled_def)
  next
    case (Iniciar env)
    with Cons.prems show ?thesis by (simp add: uma_aberta_iniciar)
  next
    case (Finalizar env)
    with Cons.prems(1) show ?thesis
      by (simp add: uma_aberta_stop_like[OF _ acao_finalizar_stop_like])
  next
    case (Tick now)
    with Cons.prems(1) show ?thesis by (simp add: uma_aberta_tick)
  next
    case (Worker job env)
    with Cons.prems(1) show ?thesis by (simp add: uma_aberta_worker)
  next
    case Callback
    with Cons.prems(1) show ?thesis by (simp add: uma_aberta_callback)
  qed
  moreover from Cons.prems(2) have "ui_permite (passo sys e) es" by simp
  ultimately show ?case using Cons.IH by simp
qed

lemma criadas_abertas_same: "criadas_abertas rows rows = []"
  by (auto simp: criadas_abertas_def abertas_def filter_empty_conv)

lemma uma_aberta_start: "uma_aberta (atividades sys) sys"
  by (simp add: uma_aberta_def criadas_abertas_same)

text \<open>
  Claim C1, amended: take any run of type selections, starts, stops, scheduler ticks,
  worker threads finishing and callbacks, in any order, in which \<open>acao_iniciar\<close> is
  called only while the start button is enabled and no automatic close is under way
  (no worker thread running, no callback waiting). At most one activity created by
  the run is open at the end.
\<close>

theorem at_most_one_open_created:
  assumes "ui_permite sys es"
  shows "length (criadas_abertas (atividades sys) (atividades (executar sys es))) \<le> 1"
proof -
  have "uma_aberta (atividades sys) (executar sys es)"
    using uma_aberta_start assms by (rule uma_aberta_executar)
  then show ?thesis by (simp add: uma_aberta_def)
qed

subsection \<open>Runs of the example screen\<close>

text \<open>
  Claim C1, as stated, speaks of every sequence of starts and stops. Two calls of
  \<open>acao_iniciar\<close> in a row, with a type selected and a store that accepts both
  inserts, leave the two activities 1 and 2 open.
\<close>

theorem two_starts_two_open_example:
  "map ativ_id (criadas_abertas (atividades ex_idle)
      (atividades (executar ex_idle [Iniciar ex_start, Iniciar ex_start]))) = [1, 2] \<and>
   \<not> length (criadas_abertas (atividades ex_idle)
      (atividades (executar ex_idle [Iniciar ex_start, Iniciar ex_start]))) \<le> 1"
  by code_simp

text \<open>
  The enabled start button alone does not bound the open activities. In
  \<open>ex_late_worker_run\<close> the start button is enabled before each of the three starts,
  and the activities 2 and 3 are open at the end: the worker thread started for
  activity 1 makes its call after the user has stopped activity 1 and started
  activity 2, and its callback \<open>_on_auto_finalized_success\<close> enables the start button
  again.
\<close>

lemma late_worker_two_open_example:
  "\<not> start_button_disabled (tela (executar ex_idle (take 0 ex_late_worker_run))) \<and>
   \<not> start_button_disabled (tela (executar ex_idle (take 4 ex_late_worker_run))) \<and>
   \<not> start_button_disabled (tela (executar ex_idle (take 8 ex_late_worker_run))) \<and>
   map ativ_id (criadas_abertas (atividades ex_idle)
      (atividades (executar ex_idle ex_late_worker_run))) = [2, 3]"
  by code_simp

text \<open>
  A run that \<open>ui_permite\<close> allows: start, tick at 11:28, the worker closes the
  activity, its callback resets the screen, the user selects a type and starts again.
\<close>

theorem at_most_one_open_created_witness:
  "ui_permite ex_idle ex_auto_run \<and>
   length (criadas_abertas (atividades ex_idle)
      (atividades (executar ex_idle ex_auto_run))) \<le> 1"
proof -
  have p: "ui_permite ex_idle ex_auto_run"
    by code_simp
  from at_most_one_open_created[OF p] p show ?thesis by simp
qed

text \<open>
  An instance for the scheduler: with activity 1 running, the tick at 11:28 writes the
  date and starts a worker thread for it; the update of the close is refused, so the
  activity stays current; after the error callback and one more tick of the same day,
  the next tick at 11:28 starts no worker thread.
\<close>

theorem auto_finalize_once_per_day_witness:
  "threads (auto_finalize_check (ex_now 100) ex_active) = [(1, ''11:28'')] \<and>
   current_activity_id (tela (executar (auto_finalize_check (ex_now 100) ex_active)
       ex_refused_run)) = Some 1 \<and>
   threads (auto_finalize_check (ex_now 300)
       (executar (auto_finalize_check (ex_now 100) ex_active) ex_refused_run)) = [] \<and>
   auto_finalize_last_date (tela (auto_finalize_check (ex_now 100) ex_active)) ''11:28''
     = Some (2025, 1, 6)"
proof -
  have a: "threads (auto_finalize_check (ex_now 100) ex_active) = [(1, ''11:28'')]"
    by code_simp
  have b: "current_activity_id (tela (executar (auto_finalize_check (ex_now 100) ex_active)
       ex_refused_run)) = Some 1"
    by code_simp
  have c: "threads (executar (auto_finalize_check (ex_now 100) ex_active) ex_refused_run) = []"
    by code_simp
  have h1: "strftime_HM (ex_now 300) = strftime_HM (ex_now 100)"
    by (simp add: strftime_HM_def ex_now_def)
  have h2: "date_of (ex_now 300) = date_of (ex_now 100)"
    by (simp add: date_of_def ex_now_def)
  have h3: "\<forall>d \<in> set (tick_dates ex_refused_run). d = date_of (ex_now 100)"
    by (simp add: ex_refused_run_def date_of_def ex_now_def)
  have h4: "strftime_HM (ex_now 100) \<in> set targets"
    by (simp add: strftime_HM_def ex_now_def targets_def two_digits_def)
  have h5: "strftime_HM (ex_now 100) = ''11:28''" "date_of (ex_now 100) = (2025, 1, 6)"
    by (simp_all add: strftime_HM_def ex_now_def two_digits_def date_of_def)
  from auto_finalize_once_per_day[OF h1 h2 h3, of ex_active] a b c h4 h5
  show ?thesis by simp
qed

subsection \<open>Resuming the newest open activity\<close>

lemma execute_open_for_user:
  "execute (eq_user_id u (limit_rows 1 (order_id_desc (is_fim_null select_rows)))) rows =
   take 1 (sort_key (\<lambda>r. - ativ_id r) (filter (\<lambda>r. fim r = None \<and> user_id r = u) rows))"
  by (simp add: execute_def eq_user_id_def limit_rows_def order_id_desc_def is_fim_null_def
      select_rows_def matches_def[abs_def])

lemma sort_key_head_least:
  assumes "sort_key f xs = y # ys"
  shows "y \<in> set xs \<and> (\<forall>x \<in> set xs. f y \<le> f x)"
proof -
  have "set (sort_key f xs) = set xs" by simp
  with assms have s: "set xs = insert y (set ys)" by simp
  have "sorted (map f (sort_key f xs))" by simp
  with assms have "\<forall>x \<in> set ys. f y \<le> f x" by simp
  with s show ?thesis by auto
qed

lemma buscar_newest_open:
  assumes "supabase_client \<noteq> None \<or> qe_configured env" and "qe_resp env = Responds"
    and "r0 \<in> set rows" and "fim r0 = None" and "user_id r0 = u"
  shows "\<exists>r. buscar_atividade_em_andamento (Some u) supabase_client env rows = Inr (Some r) \<and>
     r \<in> set rows \<and> fim r = None \<and> user_id r = u \<and>
     (\<forall>r' \<in> set rows. fim r' = None \<and> user_id r' = u \<longrightarrow> ativ_id r' \<le> ativ_id r)"
proof -
  let ?open = "filter (\<lambda>r. fim r = None \<and> user_id r = u) rows"
  let ?sorted = "sort_key (\<lambda>r. - ativ_id r) ?open"
  from assms(3-5) have "r0 \<in> set ?open" by simp
  then have "?sorted \<noteq> []"
    by (metis empty_iff empty_set set_sort)
  then obtain r rs where srt: "?sorted = r # rs"
    by (cases ?sorted) auto
  from sort_key_head_least[OF srt]
  have r: "r \<in> set ?open" and least: "\<forall>x \<in> set ?open. - ativ_id r \<le> - ativ_id x"
    by blast+
  have "buscar_atividade_em_andamento (Some u) supabase_client env rows = Inr (Some r)"
    unfolding buscar_atividade_em_andamento_def Let_def option.case execute_open_for_user srt
    using assms(1,2) by (simp add: client_or_new_cases)
  moreover have "\<forall>r' \<in> set rows. fim r' = None \<and> user_id r' = u \<longrightarrow> ativ_id r' \<le> ativ_id r"
    using least by simp
  ultimately show ?thesis using r by simp
qed

lemma verificar_resumes:
  assumes "buscar_atividade_em_andamento (Some (app_user_id sys)) None env (atividades sys)
      = Inr (Some r)"
  shows "current_activity_id (tela (verificar_atividade_em_andamento env sys)) = Some (ativ_id r) \<and>
    selected_activity_type (tela (verificar_atividade_em_andamento env sys)) = Some (tipo_atividade r) \<and>
    start_button_disabled (tela (verificar_atividade_em_andamento env sys))"
  using assms
  by (simp add: verificar_atividade_em_andamento_def Let_def set_state_em_andamento_def
      show_active_box_def on_activity_toggled_def)

text \<open>
  Claim C10: when the lookup is answered and the logged-in user has an open
  activity, \<open>buscar_atividade_em_andamento\<close> returns an open activity of that user
  whose id is greatest among the user's open activities, and
  \<open>verificar_atividade_em_andamento\<close> makes its id the \<open>current_activity_id\<close>.
\<close>

theorem resume_newest_open:
  assumes "qe_configured env" and "qe_resp env = Responds"
    and "r0 \<in> set (atividades sys)" and "fim r0 = None" and "user_id r0 = app_user_id sys"
  shows "\<exists>r. buscar_atividade_em_andamento (Some (app_user_id sys)) None env (atividades sys)
        = Inr (Some r) \<and>
     r \<in> set (atividades sys) \<and> fim r = None \<and> user_id r = app_user_id sys \<and>
     (\<forall>r' \<in> set (atividades sys). fim r' = None \<and> user_id r' = app_user_id sys
          \<longrightarrow> ativ_id r' \<le> ativ_id r) \<and>
     current_activity_id (tela (verificar_atividade_em_andamento env sys)) = Some (ativ_id r)"
proof -
  from buscar_newest_open[of None env r0 "atividades sys" "app_user_id sys"] assms
  obtain r where r: "buscar_atividade_em_andamento (Some (app_user_id sys)) None env
        (atividades sys) = Inr (Some r)"
    "r \<in> set (atividades sys)" "fim r = None" "user_id r = app_user_id sys"
    "\<forall>r' \<in> set (atividades sys). fim r' = None \<and> user_id r' = app_user_id sys
          \<longrightarrow> ativ_id r' \<le> ativ_id r"
    by blast
  from verificar_resumes[OF r(1)] r show ?thesis by blast
qed

text \<open>
  An instance: \<open>ana\<close> has the open activities 10 and 11, \<open>bia\<close> has 12; the lookup for
  \<open>ana\<close> returns 11 and the screen resumes it.
\<close>

theorem resume_newest_open_witness:
  "buscar_atividade_em_andamento (Some (app_user_id ex_login)) None ex_query (atividades ex_login)
     = Inr (Some (ex_row 11 ''ana'' 5)) \<and>
   current_activity_id (tela (verificar_atividade_em_andamento ex_query ex_login)) = Some 11"
proof -
  have a: "qe_configured ex_query" "qe_resp ex_query = Responds"
    by (simp_all add: ex_query_def)
  have b: "ex_row 10 ''ana'' 0 \<in> set (atividades ex_login)" "fim (ex_row 10 ''ana'' 0) = None"
    "user_id (ex_row 10 ''ana'' 0) = app_user_id ex_login"
    by (simp_all add: ex_login_def ex_row_def)
  have c: "buscar_atividade_em_andamento (Some (app_user_id ex_login)) None ex_query
      (atividades ex_login) = Inr (Some (ex_row 11 ''ana'' 5))"
    by (simp add: buscar_atividade_em_andamento_def client_or_new_def get_supabase_client_def
        ex_query_def ex_login_def ex_row_def Let_def execute_def eq_user_id_def limit_rows_def
        order_id_desc_def is_fim_null_def select_rows_def matches_def)
  from resume_newest_open[OF a b] c show ?thesis
    by (auto simp: ex_row_def)
qed

subsection \<open>Passwords\<close>

lemma sextet_all:
  "\<forall>n \<in> set [0..<64]. char_sextet (sextet_char n) = Some n \<and> sextet_char n \<noteq> CHR ''=''"
  by code_simp

lemma char_sextet_sextet_char: "n < 64 \<Longrightarrow> char_sextet (sextet_char n) = Some n"
  using sextet_all by simp

lemma sextet_char_not_pad: "n < 64 \<Longrightarrow> sextet_char n \<noteq> CHR ''=''"
  using sextet_all by simp

lemma div_mod_16: "(y::nat) < 16 \<Longrightarrow> (x * 16 + y) div 16 = x \<and> (x * 16 + y) mod 16 = y"
  by simp

lemma div_mod_4: "(y::nat) < 4 \<Longrightarrow> (x * 4 + y) div 4 = x \<and> (x * 4 + y) mod 4 = y"
  by simp

lemma byte_parts:
  assumes "(b::nat) < 256"
  shows "b div 4 < 64" "b div 16 < 16" "b div 64 < 4"
  using assms by simp_all

lemma recombine_1: "(b::nat) < 256 \<Longrightarrow> a div 4 * 4 + (a mod 4 * 16 + b div 16) div 16 = a"
  by (simp add: div_mod_16 byte_parts)

lemma recombine_2:
  "(c::nat) < 256 \<Longrightarrow> b < 256 \<Longrightarrow>
   (a mod 4 * 16 + b div 16) mod 16 * 16 + (b mod 16 * 4 + c div 64) div 4 = b"
  by (simp add: div_mod_16 div_mod_4 byte_parts)

lemma recombine_3: "(c::nat) < 256 \<Longrightarrow> (b mod 16 * 4 + c div 64) mod 4 * 64 + c mod 64 = c"
  by (simp add: div_mod_4 byte_parts)

lemma sextet_bounds:
  assumes "(a::nat) < 256" "(b::nat) < 256" "(c::nat) < 256"
  shows "a mod 4 * 16 + b div 16 < 64" "b mod 16 * 4 + c div 64 < 64" "c mod 64 < 64"
    "a mod 4 * 16 < 64" "b mod 16 * 4 < 64"
proof -
  have "a mod 4 < 4" "b mod 16 < 16" by simp_all
  moreover have "b div 16 < 16" "c div 64 < 4" using assms by simp_all
  ultimately show "a mod 4 * 16 + b div 16 < 64" "b mod 16 * 4 + c div 64 < 64"
    "a mod 4 * 16 < 64" "b mod 16 * 4 < 64"
    by linarith+
  show "c mod 64 < 64" by simp
qed

lemma decode_quad:
  assumes "s1 < 64" "s2 < 64" "s3 < 64" "s4 < 64"
  shows "rfc4648_decode (sextet_char s1 # sextet_char s2 # sextet_char s3 # sextet_char s4 # cs) =
    (case rfc4648_decode cs of
       Inl e \<Rightarrow> Inl e
     | Inr rest \<Rightarrow> Inr ((s1 * 4 + s2 div 16) # ((s2 mod 16) * 16 + s3 div 4) #
                          ((s3 mod 4) * 64 + s4) # rest))"
  using assms by (simp add: char_sextet_sextet_char sextet_char_not_pad split: sum.splits)

lemma decode_pad1:
  assumes "s1 < 64" "s2 < 64" "s3 < 64"
  shows "rfc4648_decode [sextet_char s1, sextet_char s2, sextet_char s3, CHR ''=''] =
    Inr [s1 * 4 + s2 div 16, (s2 mod 16) * 16 + s3 div 4]"
  using assms by (simp add: char_sextet_sextet_char sextet_char_not_pad)

lemma decode_pad2:
  assumes "s1 < 64" "s2 < 64"
  shows "rfc4648_decode [sextet_char s1, sextet_char s2, CHR ''='', CHR ''=''] =
    Inr [s1 * 4 + s2 div 16]"
  using assms by (simp add: char_sextet_sextet_char)

lemma rfc4648_roundtrip:
  "\<forall>b \<in> set bs. b < 256 \<Longrightarrow> rfc4648_decode (rfc4648_encode bs) = Inr bs"
proof (induction bs rule: rfc4648_encode.induct)
  case 1
  then show ?case by simp
next
  case (2 a)
  then have a: "a < 256" by simp
  have "rfc4648_decode (rfc4648_encode [a]) = Inr [a div 4 * 4 + (a mod 4 * 16) div 16]"
    unfolding rfc4648_encode.simps
    by (rule decode_pad2) (use a in \<open>simp_all add: byte_parts sextet_bounds\<close>)
  then show ?case by simp
next
  case (3 a b)
  then have ab: "a < 256" "b < 256" by simp_all
  have "rfc4648_decode (rfc4648_encode [a, b]) =
      Inr [a div 4 * 4 + (a mod 4 * 16 + b div 16) div 16,
           (a mod 4 * 16 + b div 16) mod 16 * 16 + (b mod 16 * 4) div 4]"
    unfolding rfc4648_encode.simps
    by (rule decode_pad1) (use ab in \<open>simp_all add: byte_parts sextet_bounds\<close>)
  also have "a div 4 * 4 + (a mod 4 * 16 + b div 16) div 16 = a"
    using ab by (simp add: recombine_1)
  also have "(a mod 4 * 16 + b div 16) mod 16 * 16 + (b mod 16 * 4) div 4 = b"
    using ab by (simp add: div_mod_16 byte_parts)
  finally show ?case .
next
  case (4 a b c bs)
  then have abc: "a < 256" "b < 256" "c < 256" and rest: "\<forall>b \<in> set bs. b < 256"
    by simp_all
  from 4 rest have ih: "rfc4648_decode (rfc4648_encode bs) = Inr bs" by simp
  have "rfc4648_decode (rfc4648_encode (a # b # c # bs)) =
      (case rfc4648_decode (rfc4648_encode bs) of
         Inl e \<Rightarrow> Inl e
       | Inr rest \<Rightarrow>
           Inr ((a div 4 * 4 + (a mod 4 * 16 + b div 16) div 16) #
                ((a mod 4 * 16 + b div 16) mod 16 * 16 + (b mod 16 * 4 + c div 64) div 4) #
                ((b mod 16 * 4 + c div 64) mod 4 * 64 + c mod 64) # rest))"
    unfolding rfc4648_encode.simps append.simps
    by (rule decode_quad) (use abc in \<open>simp_all add: byte_parts sextet_bounds\<close>)
  then show ?case
    using abc by (simp add: ih recombine_1 recombine_2 recombine_3)
qed

lemma ex_stdlib_b64_inverse: "b64_inverse ex_stdlib"
proof -
  have "rfc4648_decode (rfc4648_encode (map of_char bs)) = Inr (map of_char bs)" for bs :: string
    by (rule rfc4648_roundtrip) auto
  then show ?thesis
    by (simp add: b64_inverse_def ex_stdlib_def comp_def)
qed

text \<open>
  Claim C7: for every password, salt and iteration count for which \<open>hash_password\<close>
  returns a record, \<open>verify_password\<close> applied to the password and to the salt, hash
  and iteration count of that record returns \<open>True\<close>, given that base64 decoding
  inverts encoding; so does the guarded verification of \<open>fazer_login\<close> on the stored
  record. (\<open>hash_password\<close> returns no record when the library raises, as
  \<open>pbkdf2_hmac\<close> does for an iteration count below 1.)
\<close>

theorem verify_password_of_hash_password:
  assumes "b64_inverse lib"
    and "hash_password lib token_bytes password salt_opt iterations = Inr cred"
  shows "verify_password lib password (cr_salt cred) (cr_hash cred) (cr_iters cred) = Inr True \<and>
     verificar_senha lib password
       \<lparr>sr_salt = Some (cr_salt cred), sr_hash = Some (cr_hash cred),
        sr_iters = Some (cr_iters cred)\<rparr>"
proof -
  let ?salt = "case salt_opt of None \<Rightarrow> token_bytes | Some given \<Rightarrow> given"
  from assms(2) obtain pwd dk where
    pwd: "encode_utf8 lib password = Inr pwd" and
    dk: "pbkdf2_hmac_sha256 lib pwd ?salt iterations = Inr dk" and
    cred: "cred = \<lparr>cr_salt = b64encode lib ?salt, cr_hash = b64encode lib dk,
                    cr_iters = iterations\<rparr>"
    by (auto simp: hash_password_def Let_def split: sum.splits)
  from assms(1) have inv: "\<And>bs. b64decode lib (b64encode lib bs) = Inr bs"
    by (simp add: b64_inverse_def)
  have v: "verify_password lib password (cr_salt cred) (cr_hash cred) (cr_iters cred) = Inr True"
    by (simp add: verify_password_def cred inv pwd dk compare_digest_def)
  then show ?thesis
    by (simp add: verificar_senha_def)
qed

text \<open>
  An instance with the example library: the record for the password \<open>senha\<close> with a
  sixteen-byte salt and the default 200000 iterations verifies.
\<close>

theorem verify_password_of_hash_password_witness:
  "b64_inverse ex_stdlib \<and>
   hash_password ex_stdlib ''0123456789abcdef'' ''senha'' None 200000 =
     Inr \<lparr>cr_salt = ''MDEyMzQ1Njc4OWFiY2RlZg=='', cr_hash = ''YWhuZXMwMTIzNDU2Nzg5YWJjZGVm'',
          cr_iters = 200000\<rparr> \<and>
   verify_password ex_stdlib ''senha'' ''MDEyMzQ1Njc4OWFiY2RlZg==''
     ''YWhuZXMwMTIzNDU2Nzg5YWJjZGVm'' 200000 = Inr True"
proof -
  have h: "hash_password ex_stdlib ''0123456789abcdef'' ''senha'' None 200000 =
     Inr \<lparr>cr_salt = ''MDEyMzQ1Njc4OWFiY2RlZg=='', cr_hash = ''YWhuZXMwMTIzNDU2Nzg5YWJjZGVm'',
          cr_iters = 200000\<rparr>"
    by code_simp
  from verify_password_of_hash_password[OF ex_stdlib_b64_inverse h] h ex_stdlib_b64_inverse
  show ?thesis by simp
qed

text \<open>
  Claim C8: for every password and every record whose salt or hash does not decode
  (\<open>b64decode\<close> raises), the verification that \<open>fazer_login\<close> runs in its \<open>try\<close> block
  gives false: the exception that \<open>verify_password\<close> raises is caught there. The
  login of a user with such a record ends with the popup for a wrong user or password
  and an unchanged application; nothing is raised.
\<close>

theorem malformed_record_is_rejected:
  assumes "sr_salt record = Some salt_b64" and "sr_hash record = Some hash_b64"
    and "isl (b64decode lib salt_b64) \<or> isl (b64decode lib hash_b64)"
  shows "\<not> verificar_senha lib password record \<and>
     (strip username \<noteq> [] \<and> strip password0 \<noteq> [] \<and> users (strip username) = Some record \<longrightarrow>
        fazer_login lib users env username password0 sys =
          (Some Usuario_ou_senha_incorretos, sys))"
proof -
  have raises: "\<exists>e. verify_password lib pw salt_b64 hash_b64 n = Inl e" for pw n
    using assms(3) by (auto simp: verify_password_def isl_def split: sum.splits)
  have no: "\<not> verificar_senha lib pw record" for pw
  proof -
    from raises obtain e where
      "verify_password lib pw salt_b64 hash_b64
         (case sr_iters record of None \<Rightarrow> 200000 | Some n \<Rightarrow> n) = Inl e"
      by blast
    then show ?thesis
      by (simp add: verificar_senha_def assms(1,2) Let_def)
  qed
  then show ?thesis
    using assms(1) by (simp add: fazer_login_def Let_def)
qed

text \<open>
  An instance: the salt of \<open>ana\<close> in the example users file does not decode, and her
  login is refused.
\<close>

theorem malformed_record_is_rejected_witness:
  "isl (b64decode ex_stdlib ''MDEyM'') \<and>
   \<not> verificar_senha ex_stdlib ''senha''
       \<lparr>sr_salt = Some ''MDEyM'', sr_hash = Some ''YWhuZXMwMTIzNDU2Nzg5YWJjZGVm'',
        sr_iters = Some 200000\<rparr> \<and>
   fazer_login ex_stdlib ex_users ex_query '' ana'' ''senha '' ex_login =
     (Some Usuario_ou_senha_incorretos, ex_login)"
proof -
  have d: "isl (b64decode ex_stdlib ''MDEyM'')"
    by code_simp
  have s: "strip '' ana'' = ''ana''" "strip ''senha '' = ''senha''"
    by (simp_all add: strip_def is_space_def)
  have u: "ex_users ''ana'' = Some \<lparr>sr_salt = Some ''MDEyM'',
      sr_hash = Some ''YWhuZXMwMTIzNDU2Nzg5YWJjZGVm'', sr_iters = Some 200000\<rparr>"
    by (simp add: ex_users_def)
  from malformed_record_is_rejected[of "\<lparr>sr_salt = Some ''MDEyM'',
      sr_hash = Some ''YWhuZXMwMTIzNDU2Nzg5YWJjZGVm'', sr_iters = Some 200000\<rparr>"
      "''MDEyM''" "''YWhuZXMwMTIzNDU2Nzg5YWJjZGVm''" ex_stdlib "''senha''" "'' ana''" "''senha ''"
      ex_users ex_query ex_login] d s u
  show ?thesis by simp
qed

end
